theory Spec2Isabelle
  imports Complex_Main
begin

section \<open>The i18n template rule of eslint-plugin-template\<close>

text \<open>
  A shallow embedding of \<^verbatim>\<open>packages/eslint-plugin-template/src/rules/i18n.ts\<close>.
  The rule visits every \<^verbatim>\<open>Element\<close> and \<^verbatim>\<open>Template\<close> node of a parsed Angular
  template and calls \<^verbatim>\<open>context.report\<close> for attributes and elements that lack i18n
  coverage. The embedding returns the reports of one call of \<^verbatim>\<open>checkNode\<close> as a list,
  in the order of the calls of \<^verbatim>\<open>context.report\<close>, together with what the call wrote
  with \<^verbatim>\<open>console.log\<close>.

  A JavaScript string is modelled as a \<^typ>\<open>string\<close>: one \<^typ>\<open>char\<close> per UTF-16 code
  unit, for code units below 256. Offsets and lengths are natural numbers.
\<close>

subsection \<open>JavaScript numbers: \<^verbatim>\<open>Number(string)\<close> and \<^verbatim>\<open>String(number)\<close>\<close>

text \<open>
  \<^verbatim>\<open>isSizeOrNumber\<close> calls the built-ins \<^verbatim>\<open>Number\<close> and \<^verbatim>\<open>String\<close>. They are
  modelled after ECMA-262: \<^verbatim>\<open>StringToNumber\<close> (the grammar \<^verbatim>\<open>StringNumericLiteral\<close> and
  its numeric value, rounded to the nearest IEEE 754 binary64 value, ties to even) and
  \<^verbatim>\<open>Number::toString\<close> with radix 10 (the shortest decimal digits that read back as the
  same number). A Number value is \<^verbatim>\<open>NaN\<close>, an infinity with its sign, or a sign and
  the exact magnitude of a binary64 value as a rational. Where ECMA-262 leaves a choice
  to the implementation, the model does what the engines do: a literal of more than 20
  significant digits is rounded from its exact value, and of several shortest digit
  strings the one nearest to the number is printed.
\<close>

datatype jsnumber = NaN | Infinity bool | Finite bool rat

definition round_half_even :: "rat \<Rightarrow> int" where
  "round_half_even q =
     (let f = \<lfloor>q\<rfloor>; r = q - of_int f
      in if r < 1 / 2 then f else if 1 / 2 < r then f + 1 else if even f then f else f + 1)"

text \<open>\<open>ilog b n\<close> is the greatest \<open>k\<close> with \<open>b ^ k \<le> n\<close>, for \<open>1 < b\<close> and \<open>0 < n\<close>.\<close>

function ilog :: "nat \<Rightarrow> nat \<Rightarrow> nat" where
  "ilog b n = (if b \<le> 1 \<or> n < b then 0 else Suc (ilog b (n div b)))"
  by pat_completeness auto
termination
  by (relation "measure snd") auto

declare ilog.simps [simp del]

text \<open>\<open>floor_log b q\<close> is the greatest integer \<open>k\<close> with \<open>b powi k \<le> q\<close>, for \<open>0 < q\<close>.\<close>

definition floor_log :: "nat \<Rightarrow> rat \<Rightarrow> int" where
  "floor_log b q =
     (if 1 \<le> q then int (ilog b (nat \<lfloor>q\<rfloor>))
      else - int (Suc (ilog b (nat (\<lceil>1 / q\<rceil> - 1)))))"

text \<open>
  \<open>binary64 neg q\<close> is the Number value for the sign \<open>neg\<close> and the magnitude
  \<open>0 \<le> q\<close>: \<open>q\<close> is rounded to 53 significant bits, with \<open>-1074\<close> as the least
  exponent of the last bit, and a rounded magnitude of \<open>2 ^ 1024\<close> or more is an
  infinity.
\<close>

definition binary64 :: "bool \<Rightarrow> rat \<Rightarrow> jsnumber" where
  "binary64 neg q =
     (if q = 0 then Finite neg 0
      else let e = max (floor_log 2 q - 52) (- 1074);
               v = of_int (round_half_even (q / 2 powi e)) * 2 powi e
           in if 1024 \<le> floor_log 2 v then Infinity neg else Finite neg v)"

text \<open>
  \<^verbatim>\<open>StrWhiteSpaceChar\<close> among the code units below 256: tab, line feed, vertical tab,
  form feed, carriage return, space and no-break space.
\<close>

definition StrWhiteSpaceChar :: "char \<Rightarrow> bool" where
  "StrWhiteSpaceChar c \<longleftrightarrow> (of_char c :: nat) \<in> {9, 10, 11, 12, 13, 32, 160}"

definition trim :: "string \<Rightarrow> string" where
  "trim s = rev (dropWhile StrWhiteSpaceChar (rev (dropWhile StrWhiteSpaceChar s)))"

definition digit_value :: "char \<Rightarrow> nat option" where
  "digit_value c =
     (let n = (of_char c :: nat)
      in if 48 \<le> n \<and> n \<le> 57 then Some (n - 48)
         else if 97 \<le> n \<and> n \<le> 102 then Some (n - 87)
         else if 65 \<le> n \<and> n \<le> 70 then Some (n - 55)
         else None)"

definition is_digit :: "nat \<Rightarrow> char \<Rightarrow> bool" where
  "is_digit radix c = (case digit_value c of None \<Rightarrow> False | Some d \<Rightarrow> d < radix)"

definition digits_value :: "nat \<Rightarrow> string \<Rightarrow> int" where
  "digits_value radix ds =
     foldl (\<lambda>a c. case digit_value c of None \<Rightarrow> a | Some d \<Rightarrow> a * int radix + int d) 0 ds"

definition DecimalDigits :: "string \<Rightarrow> int option" where
  "DecimalDigits ds =
     (if ds \<noteq> [] \<and> list_all (is_digit 10) ds then Some (digits_value 10 ds) else None)"

definition ExponentPart_opt :: "string \<Rightarrow> int option" where
  "ExponentPart_opt s =
     (case s of
        [] \<Rightarrow> Some 0
      | c # r \<Rightarrow>
          if c = CHR ''e'' \<or> c = CHR ''E'' then
            (case r of
               [] \<Rightarrow> None
             | d # r' \<Rightarrow>
                 if d = CHR ''+'' then DecimalDigits r'
                 else if d = CHR ''-'' then map_option uminus (DecimalDigits r')
                 else DecimalDigits r)
          else None)"

text \<open>The mathematical value of a \<^verbatim>\<open>StrUnsignedDecimalLiteral\<close> other than \<^verbatim>\<open>Infinity\<close>.\<close>

definition StrUnsignedDecimalLiteral :: "string \<Rightarrow> rat option" where
  "StrUnsignedDecimalLiteral s =
     (let ip = takeWhile (is_digit 10) s; r1 = dropWhile (is_digit 10) s
      in case r1 of
           [] \<Rightarrow> if ip = [] then None else Some (of_int (digits_value 10 ip))
         | c # r2 \<Rightarrow>
             if c = CHR ''.'' then
               (let fp = takeWhile (is_digit 10) r2; r3 = dropWhile (is_digit 10) r2
                in if ip = [] \<and> fp = [] then None
                   else map_option
                     (\<lambda>e. (of_int (digits_value 10 ip)
                            + of_int (digits_value 10 fp) / 10 ^ length fp) * 10 powi e)
                     (ExponentPart_opt r3))
             else if ip = [] then None
             else map_option (\<lambda>e. of_int (digits_value 10 ip) * 10 powi e)
                    (ExponentPart_opt r1))"

definition StrDecimalLiteral :: "string \<Rightarrow> jsnumber option" where
  "StrDecimalLiteral s =
     (let (neg, u) =
            (case s of
               [] \<Rightarrow> (False, s)
             | c # r \<Rightarrow>
                 if c = CHR ''+'' then (False, r)
                 else if c = CHR ''-'' then (True, r)
                 else (False, s))
      in if u = ''Infinity'' then Some (Infinity neg)
         else map_option (binary64 neg) (StrUnsignedDecimalLiteral u))"

definition NonDecimalIntegerLiteral :: "string \<Rightarrow> jsnumber option" where
  "NonDecimalIntegerLiteral s =
     (case s of
        z # p # ds \<Rightarrow>
          (let radix =
                 (if p = CHR ''b'' \<or> p = CHR ''B'' then 2
                  else if p = CHR ''o'' \<or> p = CHR ''O'' then 8
                  else if p = CHR ''x'' \<or> p = CHR ''X'' then 16
                  else 0)
           in if z = CHR ''0'' \<and> radix \<noteq> 0 \<and> ds \<noteq> [] \<and> list_all (is_digit radix) ds
              then Some (binary64 False (of_int (digits_value radix ds)))
              else None)
      | _ \<Rightarrow> None)"

text \<open>\<^verbatim>\<open>Number(s)\<close> for a string \<open>s\<close>.\<close>

definition StringToNumber :: "string \<Rightarrow> jsnumber" where
  "StringToNumber str =
     (let s = trim str
      in if s = [] then Finite False 0
         else case NonDecimalIntegerLiteral s of
                Some x \<Rightarrow> x
              | None \<Rightarrow> (case StrDecimalLiteral s of Some x \<Rightarrow> x | None \<Rightarrow> NaN))"

definition digit_char :: "nat \<Rightarrow> char" where
  "digit_char d = ''0123456789'' ! d"

function decimal_digits :: "nat \<Rightarrow> string" where
  "decimal_digits n =
     (if n < 10 then [digit_char n]
      else decimal_digits (n div 10) @ [digit_char (n mod 10)])"
  by pat_completeness auto
termination
  by (relation "measure id") auto

declare decimal_digits.simps [simp del]

text \<open>
  For \<open>10 powi (n - 1) \<le> x < 10 powi n\<close> and a number \<open>k\<close> of digits, the integer
  \<open>s\<close> nearest to \<open>x / 10 powi (n - k)\<close> among those for which \<open>s * 10 powi (n - k)\<close>
  rounds to \<open>x\<close>; of two equally near the even one.
\<close>

definition candidate :: "rat \<Rightarrow> int \<Rightarrow> nat \<Rightarrow> nat option" where
  "candidate x n k =
     (let u = 10 powi (n - int k);
          lo = nat \<lfloor>x / u\<rfloor>;
          hi = Suc lo;
          ok_lo = (binary64 False (of_nat lo * u) = Finite False x);
          ok_hi = (binary64 False (of_nat hi * u) = Finite False x);
          d_lo = x - of_nat lo * u;
          d_hi = of_nat hi * u - x
      in if ok_lo \<and> ok_hi then
           (if d_lo < d_hi then Some lo
            else if d_hi < d_lo then Some hi
            else if even lo then Some lo
            else Some hi)
         else if ok_lo then Some lo
         else if ok_hi then Some hi
         else None)"

text \<open>
  The integers \<open>s\<close>, \<open>k\<close>, \<open>n\<close> of \<^verbatim>\<open>Number::toString\<close>: \<open>k\<close> digits \<open>s\<close> with
  \<open>s * 10 powi (n - k)\<close> reading back as \<open>x\<close> and \<open>k\<close> as small as possible.
  Seventeen digits determine every binary64 value.
\<close>

definition shortest_digits :: "rat \<Rightarrow> nat \<times> nat \<times> int" where
  "shortest_digits x =
     (let n = floor_log 10 x + 1
      in case List.find (\<lambda>k. candidate x n k \<noteq> None) [1..<18] of
           None \<Rightarrow> (nat \<lfloor>x / 10 powi (n - 17)\<rfloor>, 17, n)
         | Some k \<Rightarrow>
             (case candidate x n k of
                None \<Rightarrow> (nat \<lfloor>x / 10 powi (n - 17)\<rfloor>, 17, n)
              | Some s \<Rightarrow> if s = 10 ^ k then (1, 1, n + 1) else (s, k, n)))"

text \<open>\<^verbatim>\<open>String(x)\<close> for a Number \<open>x\<close>.\<close>

definition Number_toString :: "jsnumber \<Rightarrow> string" where
  "Number_toString x =
     (case x of
        NaN \<Rightarrow> ''NaN''
      | Infinity neg \<Rightarrow> (if neg then ''-Infinity'' else ''Infinity'')
      | Finite neg q \<Rightarrow>
          if q = 0 then ''0''
          else (if neg then ''-'' else '''') @
            (let (s, k, n) = shortest_digits q; ds = decimal_digits s
             in if int k \<le> n \<and> n \<le> 21 then ds @ replicate (nat (n - int k)) CHR ''0''
                else if 0 < n \<and> n \<le> 21 then take (nat n) ds @ ''.'' @ drop (nat n) ds
                else if - 6 < n \<and> n \<le> 0 then ''0.'' @ replicate (nat (- n)) CHR ''0'' @ ds
                else let e = n - 1;
                         es = (if e < 0 then ''-'' else ''+'') @ decimal_digits (nat \<bar>e\<bar>)
                     in if k = 1 then ds @ ''e'' @ es
                        else take 1 ds @ ''.'' @ drop 1 ds @ ''e'' @ es))"

subsection \<open>Values, nodes, options and reports\<close>

text \<open>
  \<^verbatim>\<open>attrib.value\<close> has type \<^verbatim>\<open>any\<close>: the rule tests its truthiness and its
  \<^verbatim>\<open>typeof\<close>.
\<close>

datatype jsvalue =
  Undefined | Null | JBoolean bool | JNumber jsnumber | JString string | JObject

fun truthy :: "jsvalue \<Rightarrow> bool" where
  "truthy Undefined = False"
| "truthy Null = False"
| "truthy (JBoolean b) = b"
| "truthy (JNumber x) = (x \<noteq> NaN \<and> x \<noteq> Finite False 0 \<and> x \<noteq> Finite True 0)"
| "truthy (JString s) = (s \<noteq> [])"
| "truthy JObject = True"

text \<open>The i18n metadata of a node or attribute; \<^verbatim>\<open>customId\<close> may be undefined or empty.\<close>

record i18nMeta =
  customId :: "string option"

record attribute =
  attrib_name :: string
  attrib_value :: jsvalue
  attrib_i18n :: "i18nMeta option"

datatype 's node =
  Node (type: string) (name: "string option") (tagName: "string option")
    (attributes: "attribute list") (children: "'s node list option")
    (i18n: "i18nMeta option") (sourceSpan: 's)

text \<open>Truthiness of a string that may be undefined (\<^verbatim>\<open>name\<close>, \<^verbatim>\<open>customId\<close>).\<close>

definition truthy_string :: "string option \<Rightarrow> bool" where
  "truthy_string s = (case s of None \<Rightarrow> False | Some v \<Rightarrow> v \<noteq> [])"

text \<open>The type \<^verbatim>\<open>Options\<close>: every field is optional.\<close>

record options =
  checkId :: "bool option"
  checkText :: "bool option"
  checkAttributes :: "bool option"
  ignoreAttributes :: "string list option"

definition enabled :: "bool option \<Rightarrow> bool" where
  "enabled b = (b = Some True)"

definition defaultOptions :: options where
  "defaultOptions =
     \<lparr>checkId = Some True, checkText = Some True, checkAttributes = Some True,
      ignoreAttributes = Some ['''']\<rparr>"

datatype MessageIds = i18nId | i18nText | i18nAttrib | i18nIdOnAttrib | i18nSuggestIgnore

text \<open>The message catalogue of \<^verbatim>\<open>meta.messages\<close>.\<close>

fun messages :: "MessageIds \<Rightarrow> string" where
  "messages i18nId =
     ''Missing custom message identifier. '' @
     ''For more information visit https://angular.io/guide/i18n#use-a-custom-id-with-a-description''"
| "messages i18nIdOnAttrib =
     ''Missing custom message identifier on attribute '' @ [CHR 0x27] @ ''{{attribName}}'' @
     [CHR 0x27] @ ''. '' @
     ''For more information visit https://angular.io/guide/i18n#use-a-custom-id-with-a-description''"
| "messages i18nText =
     ''Each element containing text node should have an i18n attribute. '' @
     ''See https://angular.io/guide/i18n''"
| "messages i18nAttrib =
     ''Attribute '' @ [CHR 0x27] @ ''{{attribName}}'' @ [CHR 0x27] @
     '' has no corresponding i18n attribute. '' @
     ''See https://angular.io/guide/i18n#translate-attributes''"
| "messages i18nSuggestIgnore =
     ''Add the attribute name '' @ [CHR 0x27] @ ''{{attribName}}'' @ [CHR 0x27] @
     '' to the ignoreAttributes option in the eslint config.''"

record position =
  line :: nat
  column :: nat

text \<open>A source location \<^verbatim>\<open>{start, end}\<close>; the field \<^verbatim>\<open>end\<close> is called \<open>finish\<close>.\<close>

record SourceLocation =
  start :: position
  finish :: position

text \<open>The edit a fix function returns: \<^verbatim>\<open>fixer.replaceTextRange([from, to], text)\<close>.\<close>

datatype edit = replaceTextRange "nat \<times> nat" string

text \<open>
  A suggestion and a report descriptor. The key \<^verbatim>\<open>fix\<close> is the field \<open>autofix\<close>
  (\<open>suggest_fix\<close> in a suggestion): \<open>None\<close> when the descriptor has no fix or the fix
  function returns \<^verbatim>\<open>null\<close>.
\<close>

record suggestion =
  suggest_messageId :: MessageIds
  suggest_data :: "(string \<times> string) list"
  suggest_fix :: "edit option"

record report =
  messageId :: MessageIds
  loc :: SourceLocation
  data :: "(string \<times> string) list"
  autofix :: "edit option"
  suggest :: "suggestion list"

text \<open>
  The collaborators of the rule: \<^verbatim>\<open>parserServices.convertNodeSourceSpanToLoc\<close> and
  \<^verbatim>\<open>sourceCode.getIndexFromLoc\<close>. Their code is not part of the rule; they are
  parameters.
\<close>

record 's services =
  convertNodeSourceSpanToLoc :: "'s \<Rightarrow> SourceLocation"
  getIndexFromLoc :: "position \<Rightarrow> nat"

subsection \<open>The module constants\<close>

definition TEXT_TYPE_NAMES :: "string list" where
  "TEXT_TYPE_NAMES = [''Text'', ''BoundText'', ''Icu'']"

definition ATTRIB_I18N :: string where
  "ATTRIB_I18N = ''i18n''"

text \<open>
  \<^verbatim>\<open>DEFAULT_IGNORE_ATTRIBUTES\<close> is a module-level array. \<^verbatim>\<open>create\<close> binds
  \<^verbatim>\<open>allIgnoredAttribs\<close> to this very array (no copy) and pushes onto it, so the array is
  state of the module: \<open>module_state\<close> holds its current contents, and the array literal
  of the source is its initial value.
\<close>

record module_state =
  DEFAULT_IGNORE_ATTRIBUTES :: "string list"

definition initial_module :: module_state where
  "initial_module =
     \<lparr>DEFAULT_IGNORE_ATTRIBUTES =
        [''class'', ''style'', ''color'', ''svgIcon'', ''href'', ''src'', ''id'', ''lang'',
         ''charset'', ''height'', ''width'', ''target'', ''type'', ''colspan'', ''uiSref'',
         ''uiSrefActive'', ''ui-view'', ''xmlns'', ''stroke-width'', ''stroke'', ''fill'',
         ''viewBox'', ''tabindex'', ''formControlName'']\<rparr>"

subsection \<open>The rule\<close>

text \<open>
  The first statements of \<^verbatim>\<open>create\<close>: the options it received are pushed onto the
  module's array. The result is the module state after the call.
\<close>

definition create :: "options \<Rightarrow> module_state \<Rightarrow> module_state" where
  "create opts m =
     (case ignoreAttributes opts of
        None \<Rightarrow> m
      | Some names \<Rightarrow>
          m\<lparr>DEFAULT_IGNORE_ATTRIBUTES := DEFAULT_IGNORE_ATTRIBUTES m @ names\<rparr>)"

text \<open>
  \<^verbatim>\<open>allIgnoredAttribs\<close> of a rule instance is a reference to the module's array: what
  the instance reads is the contents of the array at the time of the read.
\<close>

definition allIgnoredAttribs :: "module_state \<Rightarrow> string list" where
  "allIgnoredAttribs m = DEFAULT_IGNORE_ATTRIBUTES m"

text \<open>Rule instances created one after the other, the first of the list first.\<close>

definition creates :: "options list \<Rightarrow> module_state \<Rightarrow> module_state" where
  "creates os m = foldl (\<lambda>m' opts. create opts m') m os"

definition endsWith :: "string \<Rightarrow> string \<Rightarrow> bool" where
  "endsWith s suffix =
     (length suffix \<le> length s \<and> drop (length s - length suffix) s = suffix)"

definition startsWith :: "string \<Rightarrow> string \<Rightarrow> bool" where
  "startsWith s prefix = (take (length prefix) s = prefix)"

definition isSizeOrNumber :: "string \<Rightarrow> bool" where
  "isSizeOrNumber v =
     (let temp = (if endsWith v ''px'' then take (length v - 2) v else v)
      in Number_toString (StringToNumber temp) = temp)"

text \<open>Lines 136 to 143: the location of the node and the offset where fixes insert.\<close>

definition nodeLoc :: "'s services \<Rightarrow> 's node \<Rightarrow> SourceLocation" where
  "nodeLoc sv nd = convertNodeSourceSpanToLoc sv (sourceSpan nd)"

definition insertIndex :: "'s services \<Rightarrow> 's node \<Rightarrow> string option \<Rightarrow> nat" where
  "insertIndex sv nd nm =
     (let startIndex = getIndexFromLoc sv (start (nodeLoc sv nd));
          insertIndex = startIndex + 1
      in if \<not> truthy_string nm then insertIndex
         else case nm of None \<Rightarrow> insertIndex | Some v \<Rightarrow> insertIndex + length v)"

text \<open>Lines 139 and 140: a node without a name is written to the console.\<close>

definition consoleLog :: "'s node \<Rightarrow> string option \<Rightarrow> 's node list" where
  "consoleLog nd nm = (if \<not> truthy_string nm then [nd] else [])"

text \<open>
  Lines 146 to 194: the callback of \<^verbatim>\<open>node.attributes.forEach\<close>, with the reports of
  one attribute as its result.
\<close>

definition attribCallback ::
  "options \<Rightarrow> string list \<Rightarrow> SourceLocation \<Rightarrow> nat \<Rightarrow> attribute \<Rightarrow> report list" where
  "attribCallback opts ignored l ix attrib =
     (case attrib_i18n attrib of
        Some meta \<Rightarrow>
          if enabled (checkId opts) \<and> \<not> truthy_string (customId meta) then
            [\<lparr>messageId = i18nIdOnAttrib, loc = l,
              data = [(''attribName'', attrib_name attrib)],
              autofix = None, suggest = []\<rparr>]
          else []
      | None \<Rightarrow>
          if enabled (checkAttributes opts) \<and>
             truthy (attrib_value attrib) \<and>
             (case attrib_value attrib of
                JString v \<Rightarrow>
                  0 < length v \<and> v \<noteq> ''true'' \<and> v \<noteq> ''false'' \<and> \<not> isSizeOrNumber v
              | _ \<Rightarrow> False) \<and>
             \<not> startsWith (attrib_name attrib) '':xml'' \<and>
             attrib_name attrib \<notin> set ignored
          then
            [\<lparr>messageId = i18nAttrib, loc = l,
              data = [(''attribName'', attrib_name attrib)],
              autofix = Some (replaceTextRange (ix, ix)
                ('' '' @ ATTRIB_I18N @ ''-'' @ attrib_name attrib)),
              suggest =
                [\<lparr>suggest_messageId = i18nSuggestIgnore,
                  suggest_data = [(''attribName'', attrib_name attrib)],
                  suggest_fix = None\<rparr>]\<rparr>]
          else [])"

text \<open>Lines 196 to 235: the check of the element itself.\<close>

definition checkElement ::
  "options \<Rightarrow> SourceLocation \<Rightarrow> nat \<Rightarrow> 's node \<Rightarrow> report list" where
  "checkElement opts l ix nd =
     (case i18n nd of
        Some meta \<Rightarrow>
          if enabled (checkId opts) then
            (if \<not> truthy_string (customId meta) then
               [\<lparr>messageId = i18nId, loc = l, data = [], autofix = None, suggest = []\<rparr>]
             else [])
          else []
      | None \<Rightarrow>
          if enabled (checkText opts) then
            (case children nd of
               None \<Rightarrow> []
             | Some cs \<Rightarrow>
                 if list_ex (\<lambda>child. type child \<in> set TEXT_TYPE_NAMES) cs then
                   [\<lparr>messageId = i18nText, loc = l, data = [],
                     autofix = Some (replaceTextRange (ix, ix) ('' '' @ ATTRIB_I18N)),
                     suggest = []\<rparr>]
                 else [])
          else [])"

text \<open>
  \<^verbatim>\<open>checkNode(node, name)\<close> of a rule instance with options \<open>opts\<close>, run when the
  module's array is as in \<open>m\<close>. The result is what the call wrote to the console and the
  reports it made, in order.
\<close>

record 's outcome =
  console :: "'s node list"
  reports :: "report list"

definition checkNode ::
  "'s services \<Rightarrow> options \<Rightarrow> module_state \<Rightarrow> 's node \<Rightarrow> string option \<Rightarrow> 's outcome" where
  "checkNode sv opts m nd nm =
     (let l = nodeLoc sv nd; ix = insertIndex sv nd nm
      in \<lparr>console = consoleLog nd nm,
          reports =
            concat (map (attribCallback opts (allIgnoredAttribs m) l ix) (attributes nd)) @
            checkElement opts l ix nd\<rparr>)"

text \<open>The visitor: \<^verbatim>\<open>Element\<close> nodes are checked by name, \<^verbatim>\<open>Template\<close> nodes by tag name.\<close>

definition Element :: "'s services \<Rightarrow> options \<Rightarrow> module_state \<Rightarrow> 's node \<Rightarrow> 's outcome" where
  "Element sv opts m nd = checkNode sv opts m nd (name nd)"

definition Template :: "'s services \<Rightarrow> options \<Rightarrow> module_state \<Rightarrow> 's node \<Rightarrow> 's outcome" where
  "Template sv opts m nd = checkNode sv opts m nd (tagName nd)"

subsection \<open>Applying the fix of \<^verbatim>\<open>i18nText\<close> and parsing again\<close>

text \<open>
  Modelled from the spec: the host applies a fix to the source text; this is not part of
  the rule. The spec describes it as the replacement of one contiguous range of the text,
  which for a zero-width range is an insertion at that offset.
\<close>

definition applyEdit :: "edit \<Rightarrow> string \<Rightarrow> string" where
  "applyEdit e src =
     (case e of replaceTextRange (a, b) replacement \<Rightarrow> take a src @ replacement @ drop b src)"

text \<open>
  Modelled from the spec: the template parser, which reads the source text again after
  the fix, is not part of the rule. The spec's data model says that a node has an i18n
  marker iff the node itself carries one, that is, iff its opening tag has an attribute
  named \<^verbatim>\<open>i18n\<close>, and that the custom identifier is what the marker gives after
  \<^verbatim>\<open>@@\<close>. The model reads the attributes of an opening tag, each with its value (empty
  when it has none): a tag name, then names separated by white space, a value after
  \<^verbatim>\<open>=\<close>, quoted or not, up to the closing \<^verbatim>\<open>>\<close>.
\<close>

definition tagSpace :: "char \<Rightarrow> bool" where
  "tagSpace c \<longleftrightarrow> c \<in> set [CHR 0x09, CHR 0x0A, CHR 0x0C, CHR 0x0D, CHR 0x20]"

definition isAsciiLetter :: "char \<Rightarrow> bool" where
  "isAsciiLetter c =
     (let n = (of_char c :: nat) in (65 \<le> n \<and> n \<le> 90) \<or> (97 \<le> n \<and> n \<le> 122))"

datatype scanning =
  InTagName
| BeforeName
| InName string
| AfterName string
| BeforeValue string
| InQuoted string char string
| InUnquoted string string

fun scanTag :: "scanning \<Rightarrow> string \<Rightarrow> (string \<times> string) list" where
  "scanTag st [] = []"
| "scanTag InTagName (c # cs) =
     (if c = CHR ''>'' then []
      else if tagSpace c \<or> c = CHR ''/'' then scanTag BeforeName cs
      else scanTag InTagName cs)"
| "scanTag BeforeName (c # cs) =
     (if c = CHR ''>'' then []
      else if tagSpace c \<or> c = CHR ''/'' then scanTag BeforeName cs
      else scanTag (InName [c]) cs)"
| "scanTag (InName n) (c # cs) =
     (if c = CHR ''>'' then [(n, [])]
      else if c = CHR ''='' then scanTag (BeforeValue n) cs
      else if tagSpace c then scanTag (AfterName n) cs
      else if c = CHR ''/'' then (n, []) # scanTag BeforeName cs
      else scanTag (InName (n @ [c])) cs)"
| "scanTag (AfterName n) (c # cs) =
     (if c = CHR ''>'' then [(n, [])]
      else if c = CHR ''='' then scanTag (BeforeValue n) cs
      else if tagSpace c then scanTag (AfterName n) cs
      else if c = CHR ''/'' then (n, []) # scanTag BeforeName cs
      else (n, []) # scanTag (InName [c]) cs)"
| "scanTag (BeforeValue n) (c # cs) =
     (if tagSpace c then scanTag (BeforeValue n) cs
      else if c = CHR 0x22 \<or> c = CHR 0x27 then scanTag (InQuoted n c []) cs
      else if c = CHR ''>'' then [(n, [])]
      else scanTag (InUnquoted n [c]) cs)"
| "scanTag (InQuoted n q v) (c # cs) =
     (if c = q then (n, v) # scanTag BeforeName cs
      else scanTag (InQuoted n q (v @ [c])) cs)"
| "scanTag (InUnquoted n v) (c # cs) =
     (if c = CHR ''>'' then [(n, v)]
      else if tagSpace c then (n, v) # scanTag BeforeName cs
      else scanTag (InUnquoted n (v @ [c])) cs)"

text \<open>
  The attributes of the opening tag that starts at an offset of the text. A tag starts
  with \<^verbatim>\<open><\<close> and a letter; anything else is text and has no attributes.
\<close>

definition openingTag :: "string \<Rightarrow> nat \<Rightarrow> (string \<times> string) list" where
  "openingTag src off =
     (case drop off src of
        c # d # cs \<Rightarrow>
          if c = CHR ''<'' \<and> isAsciiLetter d then scanTag InTagName (d # cs) else []
      | _ \<Rightarrow> [])"

fun customIdOf :: "string \<Rightarrow> string" where
  "customIdOf (c # d # cs) =
     (if c = CHR ''@'' \<and> d = CHR ''@'' then cs else customIdOf (d # cs))"
| "customIdOf cs = []"

definition markerOf :: "(string \<times> string) list \<Rightarrow> i18nMeta option" where
  "markerOf as =
     map_option (\<lambda>v. \<lparr>customId = Some (customIdOf v)\<rparr>) (map_of as ''i18n'')"

text \<open>
  The node when the check runs again: the edit is applied to the source text, and the
  marker of the node is read from the opening tag at the node's start offset in the new
  text. The rest of the node is taken as it was.
\<close>

definition applyI18nTextFix :: "'s services \<Rightarrow> string \<Rightarrow> edit \<Rightarrow> 's node \<Rightarrow> 's node" where
  "applyI18nTextFix sv src e nd =
     (case nd of
        Node t n tn as cs meta sp \<Rightarrow>
          Node t n tn as cs
            (markerOf (openingTag (applyEdit e src) (getIndexFromLoc sv (start (nodeLoc sv nd)))))
            sp)"

subsection \<open>Example templates\<close>

text \<open>
  One-line templates: a source span is the offset of the node's first character, the
  location of a node is that column of line 1, and the index of a location is its
  column.
\<close>

definition example_services :: "nat services" where
  "example_services =
     \<lparr>convertNodeSourceSpanToLoc =
        (\<lambda>off. \<lparr>start = \<lparr>line = 1, column = off\<rparr>, finish = \<lparr>line = 1, column = off\<rparr>\<rparr>),
      getIndexFromLoc = column\<rparr>"

definition first_column :: SourceLocation where
  "first_column = \<lparr>start = \<lparr>line = 1, column = 0\<rparr>, finish = \<lparr>line = 1, column = 0\<rparr>\<rparr>"

text \<open>The attributes \<^verbatim>\<open>title="Hello"\<close>, \<^verbatim>\<open>class="big"\<close> and \<^verbatim>\<open>alt="Logo" i18n-alt\<close>.\<close>

definition title_attribute :: attribute where
  "title_attribute =
     \<lparr>attrib_name = ''title'', attrib_value = JString ''Hello'', attrib_i18n = None\<rparr>"

definition class_attribute :: attribute where
  "class_attribute =
     \<lparr>attrib_name = ''class'', attrib_value = JString ''big'', attrib_i18n = None\<rparr>"

definition alt_attribute :: attribute where
  "alt_attribute =
     \<lparr>attrib_name = ''alt'', attrib_value = JString ''Logo'',
      attrib_i18n = Some \<lparr>customId = Some ''''\<rparr>\<rparr>"

text \<open>The attribute \<^verbatim>\<open>size="12px"\<close>.\<close>

definition size_attribute :: attribute where
  "size_attribute =
     \<lparr>attrib_name = ''size'', attrib_value = JString ''12px'', attrib_i18n = None\<rparr>"

text \<open>An attribute \<^verbatim>\<open>title\<close> whose value is an object, and one whose value is \<^verbatim>\<open>NaNpx\<close>.\<close>

definition object_attribute :: attribute where
  "object_attribute =
     \<lparr>attrib_name = ''title'', attrib_value = JObject, attrib_i18n = None\<rparr>"

definition nan_attribute :: attribute where
  "nan_attribute =
     \<lparr>attrib_name = ''title'', attrib_value = JString ''NaNpx'', attrib_i18n = None\<rparr>"

definition text_node :: "nat node" where
  "text_node = Node ''Text'' None None [] None None 19"

text \<open>\<^verbatim>\<open><div title="Hello">Hi</div>\<close>\<close>

definition div_title_hi :: "nat node" where
  "div_title_hi =
     Node ''Element'' (Some ''div'') None [title_attribute] (Some [text_node]) None 0"

text \<open>\<^verbatim>\<open><div i18n title="Hello">Hi</div>\<close>\<close>

definition div_i18n_title_hi :: "nat node" where
  "div_i18n_title_hi =
     Node ''Element'' (Some ''div'') None [title_attribute] (Some [text_node])
       (Some \<lparr>customId = Some ''''\<rparr>) 0"

text \<open>\<^verbatim>\<open><div i18n="@@greeting">Hi</div>\<close>\<close>

definition div_greeting_hi :: "nat node" where
  "div_greeting_hi =
     Node ''Element'' (Some ''div'') None [] (Some [text_node])
       (Some \<lparr>customId = Some ''greeting''\<rparr>) 0"

text \<open>\<^verbatim>\<open><div><span>Hi</span></div>\<close> and its child \<^verbatim>\<open><span>Hi</span>\<close>.\<close>

definition span_hi :: "nat node" where
  "span_hi = Node ''Element'' (Some ''span'') None [] (Some [text_node]) None 5"

definition div_span_hi :: "nat node" where
  "div_span_hi = Node ''Element'' (Some ''div'') None [] (Some [span_hi]) None 0"

text \<open>\<^verbatim>\<open><img alt="Logo" i18n-alt>\<close>\<close>

definition img_alt :: "nat node" where
  "img_alt = Node ''Element'' (Some ''img'') None [alt_attribute] (Some []) None 0"

text \<open>A template node without a tag name, with a text child.\<close>

definition anonymous_template :: "nat node" where
  "anonymous_template = Node ''Template'' None None [] (Some [text_node]) None 0"

text \<open>Options that ignore \<^verbatim>\<open>title\<close>, and options that ignore \<^verbatim>\<open>alt\<close>.\<close>

definition ignore_title :: options where
  "ignore_title = defaultOptions\<lparr>ignoreAttributes := Some [''title'']\<rparr>"

definition ignore_alt :: options where
  "ignore_alt = defaultOptions\<lparr>ignoreAttributes := Some [''alt'']\<rparr>"

text \<open>An attribute \<^verbatim>\<open>title\<close> whose value is the number 5.\<close>

definition number_attribute :: attribute where
  "number_attribute =
     \<lparr>attrib_name = ''title'', attrib_value = JNumber (Finite False 5), attrib_i18n = None\<rparr>"

text \<open>
  \<^verbatim>\<open><svg>Hello world</svg>\<close>: the parser names the element \<^verbatim>\<open>:svg:svg\<close>, with its
  namespace. Its source text, and \<^verbatim>\<open><div>Hi</div>\<close> with its source text.
\<close>

definition svg_hello :: "nat node" where
  "svg_hello =
     Node ''Element'' (Some '':svg:svg'') None [] (Some [Node ''Text'' None None [] None None 5])
       None 0"

definition svg_hello_source :: string where
  "svg_hello_source = ''<svg>Hello world</svg>''"

definition div_hi :: "nat node" where
  "div_hi =
     Node ''Element'' (Some ''div'') None [] (Some [Node ''Text'' None None [] None None 5])
       None 0"

definition div_hi_source :: string where
  "div_hi_source = ''<div>Hi</div>''"

text \<open>The attribute \<^verbatim>\<open>alt="Logo" i18n-alt="@@logo"\<close>.\<close>

definition logo_attribute :: attribute where
  "logo_attribute =
     \<lparr>attrib_name = ''alt'', attrib_value = JString ''Logo'',
      attrib_i18n = Some \<lparr>customId = Some ''logo''\<rparr>\<rparr>"

section \<open>Properties\<close>

subsection \<open>The logarithms of the number model\<close>

lemma ilog_bounds:
  "1 < b \<Longrightarrow> 0 < n \<Longrightarrow> b ^ ilog b n \<le> n \<and> n < b ^ Suc (ilog b n)"
proof (induction b n rule: ilog.induct)
  case (1 b n)
  show ?case
  proof (cases "n < b")
    case True
    with "1.prems" show ?thesis by (simp add: ilog.simps [of b n])
  next
    case False
    with "1.prems" have pos: "0 < n div b"
      by (simp add: div_greater_zero_iff)
    from False "1.prems" have step: "ilog b n = Suc (ilog b (n div b))"
      by (simp add: ilog.simps [of b n])
    from "1.IH" False "1.prems" pos
    have IH: "b ^ ilog b (n div b) \<le> n div b" "n div b < b ^ Suc (ilog b (n div b))"
      by simp_all
    have "b * b ^ ilog b (n div b) \<le> b * (n div b)"
      using IH(1) by simp
    also have "\<dots> \<le> n" by simp
    finally have lower: "b ^ ilog b n \<le> n" by (simp add: step)
    have "Suc (n div b) \<le> b ^ Suc (ilog b (n div b))"
      using IH(2) by simp
    then have "b * Suc (n div b) \<le> b * b ^ Suc (ilog b (n div b))"
      by (rule mult_le_mono2)
    moreover have "n < b * Suc (n div b)"
      using "1.prems" dividend_less_times_div [of b n] by (simp add: algebra_simps)
    ultimately have upper: "n < b ^ Suc (ilog b n)" by (simp add: step)
    from lower upper show ?thesis by simp
  qed
qed


lemma floor_log_bounds:
  assumes "1 < b" and "0 < q"
  shows "of_nat b powi floor_log b q \<le> q \<and> q < of_nat b powi (floor_log b q + 1)"
proof (cases "1 \<le> q")
  case True
  then have pos: "0 < nat \<lfloor>q\<rfloor>" by simp
  let ?k = "ilog b (nat \<lfloor>q\<rfloor>)"
  from ilog_bounds [OF assms(1) pos]
  have lo: "b ^ ?k \<le> nat \<lfloor>q\<rfloor>" and hi: "nat \<lfloor>q\<rfloor> < b ^ Suc ?k" by simp_all
  have "(of_nat (b ^ ?k) :: rat) \<le> of_nat (nat \<lfloor>q\<rfloor>)"
    using lo by (simp only: of_nat_le_iff)
  also have "\<dots> \<le> q" using True by simp
  finally have 1: "of_nat b powi floor_log b q \<le> q"
    using True by (simp add: floor_log_def power_int_def)
  have "q < of_int (\<lfloor>q\<rfloor> + 1)" by linarith
  also have "\<dots> = of_nat (Suc (nat \<lfloor>q\<rfloor>))" using True by simp
  also have "\<dots> \<le> of_nat (b ^ Suc ?k)"
    using hi by (simp only: of_nat_le_iff Suc_le_eq)
  finally have 2: "q < of_nat b powi (floor_log b q + 1)"
    using True by (simp add: floor_log_def power_int_def nat_add_distrib)
  from 1 2 show ?thesis by simp
next
  case False
  with assms(2) have inv: "1 < 1 / q" by simp
  let ?c = "\<lceil>1 / q\<rceil>"
  let ?i = "ilog b (nat (?c - 1))"
  from inv have c2: "2 \<le> ?c" by linarith
  then have pos: "0 < nat (?c - 1)" by simp
  from ilog_bounds [OF assms(1) pos]
  have lo: "b ^ ?i \<le> nat (?c - 1)" and hi: "nat (?c - 1) < b ^ Suc ?i" by simp_all
  have fl: "floor_log b q = - int (Suc ?i)"
    using False by (simp add: floor_log_def)
  have bpos: "(0::rat) < of_nat b ^ n" for n
    using assms(1) by simp
  have cast: "(of_nat (nat (?c - 1)) :: rat) = of_int (?c - 1)"
    using c2 by (intro of_nat_nat) linarith
  have "1 / q \<le> of_int ?c" by linarith
  also have "\<dots> = of_nat (Suc (nat (?c - 1)))"
    unfolding of_nat_Suc cast by simp
  also have "\<dots> \<le> of_nat (b ^ Suc ?i)"
    using hi by (simp only: of_nat_le_iff Suc_le_eq)
  finally have "1 / q \<le> of_nat b ^ Suc ?i" by simp
  with assms(2) bpos [of "Suc ?i"] have "1 / of_nat b ^ Suc ?i \<le> q"
    by (simp add: field_simps)
  then have 1: "of_nat b powi floor_log b q \<le> q"
    unfolding fl power_int_minus power_int_of_nat by (simp add: field_simps)
  have "(of_nat (b ^ ?i) :: rat) \<le> of_nat (nat (?c - 1))"
    using lo by (simp only: of_nat_le_iff)
  also have "\<dots> = of_int (?c - 1)" by (rule cast)
  also have "\<dots> < 1 / q" by linarith
  finally have "of_nat b ^ ?i < 1 / q" by simp
  with assms(2) bpos [of ?i] have "q < 1 / of_nat b ^ ?i"
    by (simp add: field_simps)
  moreover have "floor_log b q + 1 = - int ?i"
    unfolding fl by simp
  ultimately have 2: "q < of_nat b powi (floor_log b q + 1)"
    by (simp only: power_int_minus power_int_of_nat) (simp add: field_simps)
  from 1 2 show ?thesis by simp
qed


lemma floor_log_ge_iff:
  assumes "1 < b" and "0 < q"
  shows "k \<le> floor_log b q \<longleftrightarrow> of_nat b powi k \<le> q"
proof
  assume "k \<le> floor_log b q"
  then have "(of_nat b :: rat) powi k \<le> of_nat b powi floor_log b q"
    using assms(1) by (intro power_int_increasing) simp_all
  also have "\<dots> \<le> q"
    using floor_log_bounds [OF assms] by simp
  finally show "of_nat b powi k \<le> q" .
next
  assume le: "of_nat b powi k \<le> q"
  show "k \<le> floor_log b q"
  proof (rule ccontr)
    assume "\<not> k \<le> floor_log b q"
    then have "floor_log b q + 1 \<le> k" by simp
    then have "(of_nat b :: rat) powi (floor_log b q + 1) \<le> of_nat b powi k"
      using assms(1) by (intro power_int_increasing) simp_all
    with le floor_log_bounds [OF assms] show False by linarith
  qed
qed

text \<open>The test for overflow in \<open>binary64\<close>.\<close>

lemma overflow_iff: "0 < v \<Longrightarrow> 1024 \<le> floor_log 2 v \<longleftrightarrow> 2 ^ 1024 \<le> v"
  using floor_log_ge_iff [of 2 v 1024] by (simp add: power_int_def)

subsection \<open>Auxiliary facts\<close>

lemma create_grows:
  "set (DEFAULT_IGNORE_ATTRIBUTES m) \<subseteq> set (DEFAULT_IGNORE_ATTRIBUTES (create opts m))"
  by (auto simp: create_def split: option.splits)

lemma creates_grows:
  "set (DEFAULT_IGNORE_ATTRIBUTES m) \<subseteq> set (DEFAULT_IGNORE_ATTRIBUTES (creates os m))"
proof (induction os arbitrary: m)
  case Nil
  show ?case by (simp add: creates_def)
next
  case (Cons opts os)
  have "set (DEFAULT_IGNORE_ATTRIBUTES m) \<subseteq> set (DEFAULT_IGNORE_ATTRIBUTES (create opts m))"
    by (rule create_grows)
  also have "\<dots> \<subseteq> set (DEFAULT_IGNORE_ATTRIBUTES (creates os (create opts m)))"
    by (rule Cons.IH)
  finally show ?case by (simp add: creates_def)
qed

text \<open>The reports of a node are those of its attributes, in order, then that of the element.\<close>

lemma checkNode_reports:
  "reports (checkNode sv opts m nd nm) =
     concat (map (attribCallback opts (allIgnoredAttribs m) (nodeLoc sv nd) (insertIndex sv nd nm))
       (attributes nd)) @
     checkElement opts (nodeLoc sv nd) (insertIndex sv nd nm) nd"
  by (simp add: checkNode_def Let_def)

lemma attribCallback_marker:
  "attrib_i18n a = Some meta \<Longrightarrow>
   attribCallback opts ignored l ix a =
     (if enabled (checkId opts) \<and> \<not> truthy_string (customId meta) then
        [\<lparr>messageId = i18nIdOnAttrib, loc = l, data = [(''attribName'', attrib_name a)],
          autofix = None, suggest = []\<rparr>]
      else [])"
  by (simp add: attribCallback_def)

lemma attribCallback_marker_ids:
  "attrib_i18n a = Some meta \<Longrightarrow>
   i18nAttrib \<notin> messageId ` set (attribCallback opts ignored l ix a)"
  by (auto simp: attribCallback_marker)

lemma attribCallback_no_marker_silent:
  assumes "attrib_i18n a = None"
    and "\<not> enabled (checkAttributes opts) \<or> \<not> truthy (attrib_value a) \<or>
         (\<forall>v. attrib_value a \<noteq> JString v) \<or>
         (\<exists>v. attrib_value a = JString v \<and>
            (v = ''true'' \<or> v = ''false'' \<or> isSizeOrNumber v)) \<or>
         startsWith (attrib_name a) '':xml'' \<or> attrib_name a \<in> set ignored"
  shows "attribCallback opts ignored l ix a = []"
  using assms by (auto simp: attribCallback_def split: jsvalue.splits)

lemma attribCallback_shape:
  "attribCallback opts ignored l ix a = [] \<or>
   (\<exists>r. attribCallback opts ignored l ix a = [r] \<and>
      (messageId r = i18nIdOnAttrib \<or> messageId r = i18nAttrib))"
  by (simp add: attribCallback_def split: option.splits)

lemma checkElement_shape:
  "checkElement opts l ix nd = [] \<or>
   (\<exists>r. checkElement opts l ix nd = [r] \<and> (messageId r = i18nId \<or> messageId r = i18nText))"
  by (simp add: checkElement_def split: option.splits)

lemma attribCallback_messageIds:
  "r \<in> set (attribCallback opts ignored l ix a) \<Longrightarrow>
   messageId r = i18nIdOnAttrib \<or> messageId r = i18nAttrib"
  using attribCallback_shape [of opts ignored l ix a] by auto

lemma checkElement_length: "length (checkElement opts l ix nd) \<le> 1"
  using checkElement_shape [of opts l ix nd] by auto

lemma attribute_reports_filter:
  assumes "k = i18nId \<or> k = i18nText"
  shows "filter (\<lambda>r. messageId r = k) (concat (map (attribCallback opts ignored l ix) as)) = []"
proof -
  have "messageId r \<noteq> k"
    if "r \<in> set (concat (map (attribCallback opts ignored l ix) as))" for r
  proof -
    from that obtain a where "r \<in> set (attribCallback opts ignored l ix a)" by auto
    from attribCallback_messageIds [OF this] assms show ?thesis by auto
  qed
  then show ?thesis by (simp add: filter_empty_conv)
qed

lemma attribCallback_reports:
  assumes "a \<in> set (attributes nd)"
    and "r \<in> set (attribCallback opts (allIgnoredAttribs m) (nodeLoc sv nd)
           (insertIndex sv nd nm) a)"
  shows "r \<in> set (reports (checkNode sv opts m nd nm))"
  using assms by (auto simp: checkNode_reports)

lemma checkElement_marker:
  assumes "i18n nd = Some meta"
  shows "checkElement opts l ix nd =
           (if enabled (checkId opts) \<and> \<not> truthy_string (customId meta) then
              [\<lparr>messageId = i18nId, loc = l, data = [], autofix = None, suggest = []\<rparr>]
            else [])"
  using assms by (simp add: checkElement_def)

lemma text_child_iff:
  "list_ex (\<lambda>child. type child \<in> set TEXT_TYPE_NAMES) cs \<longleftrightarrow>
   (\<exists>c \<in> set cs. type c = ''Text'' \<or> type c = ''BoundText'' \<or> type c = ''Icu'')"
  by (auto simp: list_ex_iff TEXT_TYPE_NAMES_def)

lemma checkElement_no_marker:
  assumes "i18n nd = None"
  shows "checkElement opts l ix nd =
           (if enabled (checkText opts) \<and>
               (\<exists>cs. children nd = Some cs \<and>
                  (\<exists>c \<in> set cs. type c = ''Text'' \<or> type c = ''BoundText'' \<or> type c = ''Icu''))
            then [\<lparr>messageId = i18nText, loc = l, data = [],
                   autofix = Some (replaceTextRange (ix, ix) '' i18n''), suggest = []\<rparr>]
            else [])"
  using assms
  by (cases "children nd") (simp_all add: checkElement_def text_child_iff ATTRIB_I18N_def)

text \<open>Reading an opening tag after the text \<^verbatim>\<open> i18n\<close> was inserted behind its name.\<close>

lemma tagSpace_simps:
  "tagSpace CHR '' ''" "\<not> tagSpace CHR ''>''" "\<not> tagSpace CHR ''/''" "\<not> tagSpace CHR ''=''"
  "\<not> tagSpace CHR ''i''" "\<not> tagSpace CHR ''1''" "\<not> tagSpace CHR ''8''" "\<not> tagSpace CHR ''n''"
  by (simp_all add: tagSpace_def)

lemma scanTag_tag_name:
  "\<forall>c \<in> set tag. \<not> tagSpace c \<and> c \<noteq> CHR ''>'' \<and> c \<noteq> CHR ''/'' \<Longrightarrow>
   scanTag InTagName (tag @ xs) = scanTag InTagName xs"
  by (induction tag) simp_all

lemma scanTag_AfterName:
  "dropWhile tagSpace xs = d # ds \<Longrightarrow> d \<noteq> CHR ''='' \<Longrightarrow>
   \<exists>ys. scanTag (AfterName n) xs = (n, []) # ys"
proof (induction xs)
  case Nil
  then show ?case by simp
next
  case (Cons x xs)
  show ?case
  proof (cases "tagSpace x")
    case True
    with Cons.prems have "dropWhile tagSpace xs = d # ds" by simp
    from Cons.IH [OF this Cons.prems(2)] True show ?thesis
      by (auto simp: tagSpace_def)
  next
    case False
    with Cons.prems have "x = d" by simp
    with False Cons.prems(2) show ?thesis by simp
  qed
qed

lemma scanTag_inserted:
  assumes "rest = c # cs" and "tagSpace c \<or> c = CHR ''>'' \<or> c = CHR ''/''"
    and "dropWhile tagSpace rest = d # ds" and "d \<noteq> CHR ''=''"
  shows "\<exists>ys. scanTag InTagName ('' i18n'' @ rest) = (''i18n'', []) # ys"
proof -
  have steps: "scanTag InTagName ('' i18n'' @ rest) = scanTag (InName ''i18n'') rest"
    by (simp add: tagSpace_simps)
  show ?thesis
  proof (cases "tagSpace c")
    case True
    with assms(1,3) have "dropWhile tagSpace cs = d # ds" by simp
    from scanTag_AfterName [OF this assms(4), of "''i18n''"] True assms(1) steps
    show ?thesis by (auto simp: tagSpace_def)
  next
    case False
    with assms(1,2) steps show ?thesis by auto
  qed
qed

lemma markerOf_first:
  "markerOf ((''i18n'', v) # ys) = Some \<lparr>customId = Some (customIdOf v)\<rparr>"
  by (simp add: markerOf_def)

lemma i18n_applyI18nTextFix:
  "i18n (applyI18nTextFix sv src e nd) =
     markerOf (openingTag (applyEdit e src) (getIndexFromLoc sv (start (nodeLoc sv nd))))"
  by (cases nd) (simp add: applyI18nTextFix_def)

text \<open>Values of \<^verbatim>\<open>isSizeOrNumber\<close>.\<close>

lemma isSizeOrNumber_non_numerals:
  "isSizeOrNumber ''NaN''" "isSizeOrNumber ''Infinity''" "isSizeOrNumber ''-Infinity''"
  "isSizeOrNumber ''NaNpx''" "isSizeOrNumber ''Infinitypx''" "isSizeOrNumber ''-Infinitypx''"
  by code_simp+

lemma isSizeOrNumber_words:
  "\<not> isSizeOrNumber ''Hello''" "\<not> isSizeOrNumber ''Logo''" "\<not> isSizeOrNumber ''big''"
  by code_simp+

text \<open>
  Numbers round-trip in their canonical spelling only: not with a leading zero, a leading
  space or a trailing \<^verbatim>\<open>.0\<close>.
\<close>

lemma isSizeOrNumber_numbers:
  "isSizeOrNumber ''12px''" "\<not> isSizeOrNumber ''007''" "\<not> isSizeOrNumber '' 12''"
  "\<not> isSizeOrNumber ''1.0''"
  by code_simp+

lemma example_loc [simp]:
  "nodeLoc example_services (Node t n tn as cs meta 0) = first_column"
  by (simp add: nodeLoc_def example_services_def first_column_def)

lemma example_start [simp]:
  "getIndexFromLoc example_services (start (convertNodeSourceSpanToLoc example_services off)) =
     off"
  by (simp add: example_services_def)

lemma example_index [simp]:
  "insertIndex example_services (Node t n tn as cs meta 0) nm =
     (case nm of None \<Rightarrow> 1 | Some v \<Rightarrow> 1 + length v)"
  by (simp add: insertIndex_def nodeLoc_def example_services_def truthy_string_def
      split: option.splits)

lemma default_enabled:
  "enabled (checkId defaultOptions)" "enabled (checkText defaultOptions)"
  "enabled (checkAttributes defaultOptions)"
  by (simp_all add: defaultOptions_def enabled_def)

lemma default_ignored:
  "allIgnoredAttribs (create defaultOptions initial_module) =
     DEFAULT_IGNORE_ATTRIBUTES initial_module @ ['''']"
  by (simp add: allIgnoredAttribs_def create_def defaultOptions_def)

lemma title_not_ignored:
  "''title'' \<notin> set (allIgnoredAttribs (create defaultOptions initial_module))"
  unfolding default_ignored by (simp add: initial_module_def)

subsection \<open>The scenarios of the specification\<close>

text \<open>
  \<^verbatim>\<open><div title="Hello">Hi</div>\<close> under the default options: one report for the
  attribute and one for the text, both with a fix that inserts after \<^verbatim>\<open><div\<close>.
\<close>

lemma scenario_attribute_and_text:
  "reports (Element example_services defaultOptions (create defaultOptions initial_module)
     div_title_hi) =
     [\<lparr>messageId = i18nAttrib, loc = first_column, data = [(''attribName'', ''title'')],
       autofix = Some (replaceTextRange (4, 4) '' i18n-title''),
       suggest = [\<lparr>suggest_messageId = i18nSuggestIgnore,
                   suggest_data = [(''attribName'', ''title'')], suggest_fix = None\<rparr>]\<rparr>,
      \<lparr>messageId = i18nText, loc = first_column, data = [],
       autofix = Some (replaceTextRange (4, 4) '' i18n''), suggest = []\<rparr>]"
  by (simp add: Element_def checkNode_reports div_title_hi_def title_not_ignored
      attribCallback_def title_attribute_def isSizeOrNumber_words
      default_enabled startsWith_def checkElement_def text_node_def
      TEXT_TYPE_NAMES_def ATTRIB_I18N_def)

text \<open>\<^verbatim>\<open><div i18n title="Hello">Hi</div>\<close>: the attribute, then the missing identifier.\<close>

lemma scenario_marker_without_id:
  "map messageId (reports (Element example_services defaultOptions
     (create defaultOptions initial_module) div_i18n_title_hi)) = [i18nAttrib, i18nId]"
  by (simp add: Element_def checkNode_reports div_i18n_title_hi_def title_not_ignored
      attribCallback_def title_attribute_def isSizeOrNumber_words
      default_enabled startsWith_def checkElement_def truthy_string_def)

text \<open>\<^verbatim>\<open><div i18n="@@greeting">Hi</div>\<close>: no report.\<close>

lemma scenario_marker_with_id:
  "reports (Element example_services defaultOptions (create defaultOptions initial_module)
     div_greeting_hi) = []"
  by (simp add: Element_def checkNode_reports div_greeting_hi_def checkElement_def
      truthy_string_def)

text \<open>\<^verbatim>\<open><div title="Hello">Hi</div>\<close> when \<^verbatim>\<open>title\<close> is ignored: the text only.\<close>

lemma scenario_ignored_attribute:
  "map messageId (reports (Element example_services ignore_title
     (create ignore_title initial_module) div_title_hi)) = [i18nText]"
  by (simp add: Element_def checkNode_reports div_title_hi_def ignore_title_def
      allIgnoredAttribs_def create_def attribCallback_def title_attribute_def
      defaultOptions_def enabled_def checkElement_def text_node_def TEXT_TYPE_NAMES_def)

text \<open>
  \<^verbatim>\<open><div><span>Hi</span></div>\<close>: the text is a child of \<^verbatim>\<open>span\<close>, which is
  reported, and not of \<^verbatim>\<open>div\<close>, which is not.
\<close>

lemma scenario_text_of_a_child:
  "reports (Element example_services defaultOptions (create defaultOptions initial_module)
     div_span_hi) = [] \<and>
   map messageId (reports (Element example_services defaultOptions
     (create defaultOptions initial_module) span_hi)) = [i18nText]"
  by (simp add: Element_def checkNode_reports div_span_hi_def span_hi_def checkElement_def
      default_enabled text_node_def TEXT_TYPE_NAMES_def)

subsection \<open>Exempt attributes\<close>

text \<open>
  Claim C1. Take an attribute whose name is in the built-in ignore list, or whose value
  is absent (\<^verbatim>\<open>undefined\<close> or \<^verbatim>\<open>null\<close>), the empty string, \<^verbatim>\<open>"true"\<close>,
  \<^verbatim>\<open>"false"\<close>, or a string accepted by \<^verbatim>\<open>isSizeOrNumber\<close> (after a trailing
  \<^verbatim>\<open>px\<close> is removed, \<^verbatim>\<open>String(Number(v))\<close> gives the string back). Then no report
  \<^verbatim>\<open>i18nAttrib\<close> is made for it, whatever the options of the instance, the location, the
  other fields of the attribute and the names that the instances \<open>os\<close> created so far
  have pushed onto the ignore list.
\<close>

theorem exempt_attribute_not_reported:
  assumes "attrib_name a \<in> set (DEFAULT_IGNORE_ATTRIBUTES initial_module) \<or>
           attrib_value a = Undefined \<or> attrib_value a = Null \<or>
           attrib_value a = JString '''' \<or> attrib_value a = JString ''true'' \<or>
           attrib_value a = JString ''false'' \<or>
           (\<exists>v. attrib_value a = JString v \<and> isSizeOrNumber v)"
  shows "i18nAttrib \<notin> messageId `
           set (attribCallback opts (allIgnoredAttribs (creates os initial_module)) l ix a)"
proof (cases "attrib_i18n a")
  case (Some meta)
  then show ?thesis by (rule attribCallback_marker_ids)
next
  case None
  have "attrib_name a \<in> set (DEFAULT_IGNORE_ATTRIBUTES initial_module) \<Longrightarrow>
        attrib_name a \<in> set (allIgnoredAttribs (creates os initial_module))"
    using creates_grows [of initial_module os] by (auto simp: allIgnoredAttribs_def)
  with assms have "attribCallback opts (allIgnoredAttribs (creates os initial_module)) l ix a = []"
    by (intro attribCallback_no_marker_silent [OF None]) auto
  then show ?thesis by simp
qed

text \<open>
  The attributes \<^verbatim>\<open>class="big"\<close> and \<^verbatim>\<open>size="12px"\<close>, after one instance with the
  default options.
\<close>

theorem exempt_attribute_not_reported_witness:
  "attrib_name class_attribute \<in> set (DEFAULT_IGNORE_ATTRIBUTES initial_module) \<and>
   i18nAttrib \<notin> messageId `
     set (attribCallback defaultOptions (allIgnoredAttribs (creates [defaultOptions] initial_module))
       first_column 4 class_attribute) \<and>
   attrib_value size_attribute = JString ''12px'' \<and>
   isSizeOrNumber ''12px'' \<and>
   i18nAttrib \<notin> messageId `
     set (attribCallback defaultOptions (allIgnoredAttribs (creates [defaultOptions] initial_module))
       first_column 5 size_attribute)"
proof -
  have h1: "attrib_name class_attribute \<in> set (DEFAULT_IGNORE_ATTRIBUTES initial_module)"
    by (simp add: class_attribute_def initial_module_def)
  have h2: "attrib_value size_attribute = JString ''12px''" "isSizeOrNumber ''12px''"
    by (simp_all add: size_attribute_def isSizeOrNumber_numbers)
  show ?thesis
    using h1 h2
      exempt_attribute_not_reported [where a = class_attribute and opts = defaultOptions
        and os = "[defaultOptions]" and l = first_column and ix = 4]
      exempt_attribute_not_reported [where a = size_attribute and opts = defaultOptions
        and os = "[defaultOptions]" and l = first_column and ix = 5]
    by blast
qed

text \<open>
  Claim C10. The strings \<^verbatim>\<open>NaN\<close>, \<^verbatim>\<open>Infinity\<close> and \<^verbatim>\<open>-Infinity\<close>, with or
  without the suffix \<^verbatim>\<open>px\<close>, are accepted by \<^verbatim>\<open>isSizeOrNumber\<close>, although none is a
  numeral: \<^verbatim>\<open>Number\<close> gives \<^verbatim>\<open>NaN\<close> or an infinity and \<^verbatim>\<open>String\<close> gives the
  same text back. So no report \<^verbatim>\<open>i18nAttrib\<close> is made for an attribute with such a
  value.
\<close>

theorem non_numerals_accepted:
  assumes "v \<in> {''NaN'', ''Infinity'', ''-Infinity'', ''NaNpx'', ''Infinitypx'', ''-Infinitypx''}"
    and "attrib_value a = JString v"
  shows "isSizeOrNumber v \<and>
         i18nAttrib \<notin> messageId ` set (attribCallback opts ignored l ix a)"
proof -
  from assms(1) have v: "isSizeOrNumber v"
    using isSizeOrNumber_non_numerals by auto
  have "i18nAttrib \<notin> messageId ` set (attribCallback opts ignored l ix a)"
  proof (cases "attrib_i18n a")
    case (Some meta)
    then show ?thesis by (rule attribCallback_marker_ids)
  next
    case None
    with v assms(2) have "attribCallback opts ignored l ix a = []"
      by (intro attribCallback_no_marker_silent) auto
    then show ?thesis by simp
  qed
  with v show ?thesis by simp
qed

text \<open>The attribute \<^verbatim>\<open>title="NaNpx"\<close> under the default options.\<close>

theorem non_numerals_accepted_witness:
  "''NaNpx'' \<in> {''NaN'', ''Infinity'', ''-Infinity'', ''NaNpx'', ''Infinitypx'', ''-Infinitypx''} \<and>
   attrib_value nan_attribute = JString ''NaNpx'' \<and>
   isSizeOrNumber ''NaNpx'' \<and>
   i18nAttrib \<notin> messageId `
     set (attribCallback defaultOptions (allIgnoredAttribs (create defaultOptions initial_module))
       first_column 4 nan_attribute)"
proof -
  have h1: "''NaNpx'' \<in> {''NaN'', ''Infinity'', ''-Infinity'', ''NaNpx'', ''Infinitypx'', ''-Infinitypx''}"
    by simp
  have h2: "attrib_value nan_attribute = JString ''NaNpx''"
    by (simp add: nan_attribute_def)
  show ?thesis
    using h1 h2 non_numerals_accepted [OF h1 h2, where opts = defaultOptions
        and ignored = "allIgnoredAttribs (create defaultOptions initial_module)"
        and l = first_column and ix = 4]
    by blast
qed

text \<open>
  Claim C7, as the code has it. The claim says that a value that is not a string is
  treated as not exempt and is reported. The condition of the report requires
  \<^verbatim>\<open>typeof attrib.value === 'string'\<close>: an attribute whose value is not a string is
  exempt, and no report \<^verbatim>\<open>i18nAttrib\<close> is made for it.
\<close>

theorem nonstring_value_not_reported:
  assumes "\<forall>v. attrib_value a \<noteq> JString v"
  shows "i18nAttrib \<notin> messageId ` set (attribCallback opts ignored l ix a)"
proof (cases "attrib_i18n a")
  case (Some meta)
  then show ?thesis by (rule attribCallback_marker_ids)
next
  case None
  with assms have "attribCallback opts ignored l ix a = []"
    by (intro attribCallback_no_marker_silent) auto
  then show ?thesis by simp
qed

text \<open>An attribute \<^verbatim>\<open>title\<close> whose value is the number 5.\<close>

theorem nonstring_value_not_reported_witness:
  "attrib_value number_attribute = JNumber (Finite False 5) \<and>
   i18nAttrib \<notin> messageId `
     set (attribCallback defaultOptions (allIgnoredAttribs (create defaultOptions initial_module))
       first_column 4 number_attribute)"
proof -
  have h: "\<forall>v. attrib_value number_attribute \<noteq> JString v"
    by (simp add: number_attribute_def)
  have "attrib_value number_attribute = JNumber (Finite False 5)"
    by (simp add: number_attribute_def)
  then show ?thesis
    using nonstring_value_not_reported [OF h, where opts = defaultOptions
        and ignored = "allIgnoredAttribs (create defaultOptions initial_module)"
        and l = first_column and ix = 4]
    by blast
qed

text \<open>
  The claim fails for the attribute \<^verbatim>\<open>title\<close> with an object as its value: the check
  of attributes is enabled, the attribute has no marker, its value is present and is
  neither empty, \<^verbatim>\<open>"true"\<close>, \<^verbatim>\<open>"false"\<close> nor a numeric string, its name does not
  start with \<^verbatim>\<open>:xml\<close> and is not ignored, and there is no report.
\<close>

theorem nonstring_value_counterexample:
  "enabled (checkAttributes defaultOptions) \<and>
   attrib_i18n object_attribute = None \<and>
   attrib_value object_attribute = JObject \<and>
   truthy (attrib_value object_attribute) \<and>
   \<not> startsWith (attrib_name object_attribute) '':xml'' \<and>
   attrib_name object_attribute \<notin> set (allIgnoredAttribs (create defaultOptions initial_module)) \<and>
   attribCallback defaultOptions (allIgnoredAttribs (create defaultOptions initial_module))
     first_column 4 object_attribute = []"
  by (simp add: object_attribute_def default_enabled startsWith_def title_not_ignored
      attribCallback_def)

subsection \<open>Attributes that are reported\<close>

text \<open>
  Claim C3. Take an attribute of a node that has no i18n marker of its own and is not
  exempt: the check of attributes is enabled, the value is a string other than the empty
  string, \<^verbatim>\<open>"true"\<close> and \<^verbatim>\<open>"false"\<close> that \<^verbatim>\<open>isSizeOrNumber\<close> rejects, and the
  name neither starts with \<^verbatim>\<open>:xml\<close> nor is in the ignore list. The callback makes
  exactly one report for it, and the report is among those of the node: it is
  \<^verbatim>\<open>i18nAttrib\<close> at the location of the node, its data is the name of the attribute,
  its fix replaces the empty range at the insertion offset by \<^verbatim>\<open> i18n-<name>\<close>, and
  its one suggestion is \<^verbatim>\<open>i18nSuggestIgnore\<close> with the name as data and no edit, whose
  message asks to add the name to the option \<^verbatim>\<open>ignoreAttributes\<close>.
\<close>

theorem missing_attribute_report:
  fixes sv :: "'s services"
  defines "r \<equiv> (\<lambda>nd nm a.
      \<lparr>messageId = i18nAttrib, loc = nodeLoc sv nd,
       data = [(''attribName'', attrib_name a)],
       autofix = Some (replaceTextRange (insertIndex sv nd nm, insertIndex sv nd nm)
         ('' i18n-'' @ attrib_name a)),
       suggest =
         [\<lparr>suggest_messageId = i18nSuggestIgnore,
           suggest_data = [(''attribName'', attrib_name a)],
           suggest_fix = None\<rparr>]\<rparr>)"
  assumes "a \<in> set (attributes nd)"
    and "attrib_i18n a = None"
    and "enabled (checkAttributes opts)"
    and "attrib_value a = JString v"
    and "v \<noteq> ''''" and "v \<noteq> ''true''" and "v \<noteq> ''false''" and "\<not> isSizeOrNumber v"
    and "\<not> startsWith (attrib_name a) '':xml''"
    and "attrib_name a \<notin> set (allIgnoredAttribs m)"
  shows "attribCallback opts (allIgnoredAttribs m) (nodeLoc sv nd) (insertIndex sv nd nm) a =
           [r nd nm a] \<and>
         r nd nm a \<in> set (reports (checkNode sv opts m nd nm)) \<and>
         messages i18nSuggestIgnore =
           ''Add the attribute name '' @ [CHR 0x27] @ ''{{attribName}}'' @ [CHR 0x27] @
           '' to the ignoreAttributes option in the eslint config.''"
proof -
  have cb: "attribCallback opts (allIgnoredAttribs m) (nodeLoc sv nd) (insertIndex sv nd nm) a =
      [r nd nm a]"
    using assms(3-) by (simp add: attribCallback_def r_def ATTRIB_I18N_def)
  with assms(2) have "r nd nm a \<in> set (reports (checkNode sv opts m nd nm))"
    by (intro attribCallback_reports [of a]) simp_all
  with cb show ?thesis by simp
qed

text \<open>The attribute \<^verbatim>\<open>title\<close> of \<^verbatim>\<open><div title="Hello">Hi</div>\<close>.\<close>

theorem missing_attribute_report_witness:
  "title_attribute \<in> set (attributes div_title_hi) \<and>
   attrib_i18n title_attribute = None \<and>
   enabled (checkAttributes defaultOptions) \<and>
   attrib_value title_attribute = JString ''Hello'' \<and>
   \<not> isSizeOrNumber ''Hello'' \<and>
   \<not> startsWith (attrib_name title_attribute) '':xml'' \<and>
   attrib_name title_attribute \<notin> set (allIgnoredAttribs (create defaultOptions initial_module)) \<and>
   attribCallback defaultOptions (allIgnoredAttribs (create defaultOptions initial_module))
     first_column 4 title_attribute =
     [\<lparr>messageId = i18nAttrib, loc = first_column, data = [(''attribName'', ''title'')],
       autofix = Some (replaceTextRange (4, 4) '' i18n-title''),
       suggest = [\<lparr>suggest_messageId = i18nSuggestIgnore,
                   suggest_data = [(''attribName'', ''title'')], suggest_fix = None\<rparr>]\<rparr>]"
proof -
  have h: "title_attribute \<in> set (attributes div_title_hi)"
    "attrib_i18n title_attribute = None"
    "enabled (checkAttributes defaultOptions)"
    "attrib_value title_attribute = JString ''Hello''"
    "''Hello'' \<noteq> ''''" "''Hello'' \<noteq> ''true''" "''Hello'' \<noteq> ''false''"
    "\<not> isSizeOrNumber ''Hello''"
    "\<not> startsWith (attrib_name title_attribute) '':xml''"
    "attrib_name title_attribute \<notin> set (allIgnoredAttribs (create defaultOptions initial_module))"
    using title_not_ignored
    by (simp_all add: div_title_hi_def title_attribute_def default_enabled
        isSizeOrNumber_words startsWith_def)
  have "nodeLoc example_services div_title_hi = first_column"
    and "insertIndex example_services div_title_hi (Some ''div'') = 4"
    by (simp_all add: div_title_hi_def)
  with h missing_attribute_report [OF h, where sv = example_services and nm = "Some ''div''"]
  show ?thesis by (simp add: title_attribute_def)
qed

text \<open>
  Claim C4. Take an attribute that carries an i18n marker of its own. No report
  \<^verbatim>\<open>i18nAttrib\<close> is made for it, whatever the marker, the options and the ignore list
  are. When the marker has no custom identifier and the check of identifiers is enabled,
  the callback makes exactly one report, whatever the option \<^verbatim>\<open>checkAttributes\<close> is:
  \<^verbatim>\<open>i18nIdOnAttrib\<close> at the location of the node, with the name of the attribute as
  data, no fix and no suggestion; for an attribute of the node it is among the reports
  of the node.
\<close>

theorem marked_attribute_report:
  fixes sv :: "'s services"
  defines "r \<equiv> (\<lambda>nd a.
      \<lparr>messageId = i18nIdOnAttrib, loc = nodeLoc sv nd,
       data = [(''attribName'', attrib_name a)], autofix = None, suggest = []\<rparr>)"
  assumes "attrib_i18n a = Some meta"
  shows "i18nAttrib \<notin> messageId ` set (attribCallback opts' ignored l ix a) \<and>
         (\<not> truthy_string (customId meta) \<and> enabled (checkId opts) \<longrightarrow>
           attribCallback (opts\<lparr>checkAttributes := c\<rparr>) (allIgnoredAttribs m) (nodeLoc sv nd)
             (insertIndex sv nd nm) a = [r nd a] \<and>
           (a \<in> set (attributes nd) \<longrightarrow>
             r nd a \<in> set (reports (checkNode sv opts m nd nm))))"
proof -
  have 1: "attribCallback (opts\<lparr>checkAttributes := c\<rparr>) (allIgnoredAttribs m) (nodeLoc sv nd)
      (insertIndex sv nd nm) a = [r nd a]"
    if "\<not> truthy_string (customId meta)" "enabled (checkId opts)" for c
    using assms(2) that by (simp add: attribCallback_marker r_def)
  have 2: "r nd a \<in> set (reports (checkNode sv opts m nd nm))"
    if "\<not> truthy_string (customId meta)" "enabled (checkId opts)" "a \<in> set (attributes nd)"
    using 1 [OF that(1,2), of "checkAttributes opts"] that(3)
    by (intro attribCallback_reports [of a]) simp_all
  have 3: "i18nAttrib \<notin> messageId ` set (attribCallback opts' ignored l ix a)"
    using assms(2) by (rule attribCallback_marker_ids)
  from 1 2 3 show ?thesis by blast
qed

text \<open>
  The attribute \<^verbatim>\<open>alt\<close> of \<^verbatim>\<open><img alt="Logo" i18n-alt>\<close>, with the check of attributes
  switched off, and the attribute \<^verbatim>\<open>alt="Logo" i18n-alt="@@logo"\<close>, whose marker has a
  custom identifier.
\<close>

theorem marked_attribute_report_witness:
  "alt_attribute \<in> set (attributes img_alt) \<and>
   attrib_i18n alt_attribute = Some \<lparr>customId = Some ''''\<rparr> \<and>
   \<not> truthy_string (customId \<lparr>customId = Some ''''\<rparr>) \<and>
   enabled (checkId defaultOptions) \<and>
   attribCallback (defaultOptions\<lparr>checkAttributes := Some False\<rparr>)
     (allIgnoredAttribs (create defaultOptions initial_module)) first_column 4 alt_attribute =
     [\<lparr>messageId = i18nIdOnAttrib, loc = first_column, data = [(''attribName'', ''alt'')],
       autofix = None, suggest = []\<rparr>] \<and>
   \<lparr>messageId = i18nIdOnAttrib, loc = first_column, data = [(''attribName'', ''alt'')],
     autofix = None, suggest = []\<rparr>
     \<in> set (reports (checkNode example_services defaultOptions
         (create defaultOptions initial_module) img_alt (Some ''img''))) \<and>
   i18nAttrib \<notin> messageId `
     set (attribCallback defaultOptions (allIgnoredAttribs (create defaultOptions initial_module))
       first_column 4 alt_attribute) \<and>
   attrib_i18n logo_attribute = Some \<lparr>customId = Some ''logo''\<rparr> \<and>
   i18nAttrib \<notin> messageId `
     set (attribCallback defaultOptions (allIgnoredAttribs (create defaultOptions initial_module))
       first_column 4 logo_attribute)"
proof -
  have h: "attrib_i18n alt_attribute = Some \<lparr>customId = Some ''''\<rparr>"
    and h': "alt_attribute \<in> set (attributes img_alt)"
    "\<not> truthy_string (customId \<lparr>customId = Some ''''\<rparr>)"
    "enabled (checkId defaultOptions)"
    by (simp_all add: img_alt_def alt_attribute_def truthy_string_def default_enabled)
  have g: "attrib_i18n logo_attribute = Some \<lparr>customId = Some ''logo''\<rparr>"
    by (simp add: logo_attribute_def)
  have locs: "nodeLoc example_services img_alt = first_column"
    "insertIndex example_services img_alt (Some ''img'') = 4"
    "attrib_name alt_attribute = ''alt''"
    by (simp_all add: img_alt_def alt_attribute_def)
  note first = marked_attribute_report [OF h, where sv = example_services and nd = img_alt
      and nm = "Some ''img''" and opts = defaultOptions and c = "Some False"
      and m = "create defaultOptions initial_module" and opts' = defaultOptions
      and ignored = "allIgnoredAttribs (create defaultOptions initial_module)"
      and l = first_column and ix = 4]
  note second = marked_attribute_report [OF g, where opts' = defaultOptions
      and ignored = "allIgnoredAttribs (create defaultOptions initial_module)"
      and l = first_column and ix = 4]
  from first h' have
    "attribCallback (defaultOptions\<lparr>checkAttributes := Some False\<rparr>)
       (allIgnoredAttribs (create defaultOptions initial_module))
       (nodeLoc example_services img_alt)
       (insertIndex example_services img_alt (Some ''img'')) alt_attribute =
     [\<lparr>messageId = i18nIdOnAttrib, loc = nodeLoc example_services img_alt,
       data = [(''attribName'', attrib_name alt_attribute)], autofix = None, suggest = []\<rparr>] \<and>
     \<lparr>messageId = i18nIdOnAttrib, loc = nodeLoc example_services img_alt,
       data = [(''attribName'', attrib_name alt_attribute)], autofix = None, suggest = []\<rparr>
       \<in> set (reports (checkNode example_services defaultOptions
           (create defaultOptions initial_module) img_alt (Some ''img''))) \<and>
     i18nAttrib \<notin> messageId `
       set (attribCallback defaultOptions (allIgnoredAttribs (create defaultOptions initial_module))
         first_column 4 alt_attribute)"
    by blast
  then have 1:
    "attribCallback (defaultOptions\<lparr>checkAttributes := Some False\<rparr>)
       (allIgnoredAttribs (create defaultOptions initial_module)) first_column 4 alt_attribute =
     [\<lparr>messageId = i18nIdOnAttrib, loc = first_column, data = [(''attribName'', ''alt'')],
       autofix = None, suggest = []\<rparr>] \<and>
     \<lparr>messageId = i18nIdOnAttrib, loc = first_column, data = [(''attribName'', ''alt'')],
       autofix = None, suggest = []\<rparr>
       \<in> set (reports (checkNode example_services defaultOptions
           (create defaultOptions initial_module) img_alt (Some ''img''))) \<and>
     i18nAttrib \<notin> messageId `
       set (attribCallback defaultOptions (allIgnoredAttribs (create defaultOptions initial_module))
         first_column 4 alt_attribute)"
    by (simp add: locs)
  from second have 2: "i18nAttrib \<notin> messageId `
     set (attribCallback defaultOptions (allIgnoredAttribs (create defaultOptions initial_module))
       first_column 4 logo_attribute)"
    by blast
  from h h' g 1 2 show ?thesis by blast
qed

subsection \<open>The element\<close>

text \<open>
  Claim C2. The reports of a node are those of its attributes followed by those of the
  element check, which are at most one. The presence of the node's i18n marker alone
  decides which of the two branches of the element check runs: a node with a marker has
  no report \<^verbatim>\<open>i18nText\<close> and a node without a marker has no report \<^verbatim>\<open>i18nId\<close>,
  whatever the options, the marker and the children are. When the node carries a marker
  without a custom identifier and the check of identifiers is enabled, the element check
  makes one report \<^verbatim>\<open>i18nId\<close> without a fix; it is the only report \<^verbatim>\<open>i18nId\<close> of the
  node. When the node carries no marker, the check of text is enabled and one of its
  children (not of their descendants) has the type \<^verbatim>\<open>Text\<close>, \<^verbatim>\<open>BoundText\<close> or
  \<^verbatim>\<open>Icu\<close>, the element check makes one report \<^verbatim>\<open>i18nText\<close> whose fix replaces the
  empty range at the insertion offset by \<^verbatim>\<open> i18n\<close>; it is the only report
  \<^verbatim>\<open>i18nText\<close> of the node.
\<close>

theorem element_check:
  fixes sv :: "'s services"
  defines "R \<equiv> (\<lambda>opts m nd nm. reports (checkNode sv opts m nd nm))"
    and "E \<equiv> (\<lambda>opts nd nm. checkElement opts (nodeLoc sv nd) (insertIndex sv nd nm) nd)"
  shows "R opts m nd nm =
           concat (map (attribCallback opts (allIgnoredAttribs m) (nodeLoc sv nd)
             (insertIndex sv nd nm)) (attributes nd)) @ E opts nd nm \<and>
         length (E opts nd nm) \<le> 1 \<and>
         (i18n nd \<noteq> None \<longrightarrow> filter (\<lambda>r. messageId r = i18nText) (R opts m nd nm) = []) \<and>
         (i18n nd = None \<longrightarrow> filter (\<lambda>r. messageId r = i18nId) (R opts m nd nm) = []) \<and>
         (\<forall>meta. i18n nd = Some meta \<and> enabled (checkId opts) \<and>
             \<not> truthy_string (customId meta) \<longrightarrow>
           E opts nd nm =
             [\<lparr>messageId = i18nId, loc = nodeLoc sv nd, data = [], autofix = None,
               suggest = []\<rparr>] \<and>
           filter (\<lambda>r. messageId r = i18nId) (R opts m nd nm) = E opts nd nm \<and>
           filter (\<lambda>r. messageId r = i18nText) (R opts m nd nm) = []) \<and>
         (i18n nd = None \<and> enabled (checkText opts) \<and>
           (\<exists>cs. children nd = Some cs \<and>
              (\<exists>c \<in> set cs. type c = ''Text'' \<or> type c = ''BoundText'' \<or> type c = ''Icu'')) \<longrightarrow>
           E opts nd nm =
             [\<lparr>messageId = i18nText, loc = nodeLoc sv nd, data = [],
               autofix = Some (replaceTextRange (insertIndex sv nd nm, insertIndex sv nd nm)
                 '' i18n''),
               suggest = []\<rparr>] \<and>
           filter (\<lambda>r. messageId r = i18nText) (R opts m nd nm) = E opts nd nm \<and>
           filter (\<lambda>r. messageId r = i18nId) (R opts m nd nm) = [])"
  unfolding R_def E_def
  using checkElement_length [of opts "nodeLoc sv nd" "insertIndex sv nd nm" nd]
  by (auto simp: checkNode_reports attribute_reports_filter
      checkElement_marker checkElement_no_marker)

text \<open>
  \<^verbatim>\<open><div i18n title="Hello">Hi</div>\<close> for the marker,
  \<^verbatim>\<open><div i18n="@@greeting">Hi</div>\<close> for a marker with a custom identifier and
  \<^verbatim>\<open><div title="Hello">Hi</div>\<close> for the text, under the default options.
\<close>

theorem element_check_witness:
  "i18n div_i18n_title_hi = Some \<lparr>customId = Some ''''\<rparr> \<and>
   enabled (checkId defaultOptions) \<and>
   \<not> truthy_string (customId \<lparr>customId = Some ''''\<rparr>) \<and>
   filter (\<lambda>r. messageId r = i18nId)
     (reports (checkNode example_services defaultOptions (create defaultOptions initial_module)
        div_i18n_title_hi (Some ''div''))) =
     [\<lparr>messageId = i18nId, loc = first_column, data = [], autofix = None, suggest = []\<rparr>] \<and>
   filter (\<lambda>r. messageId r = i18nText)
     (reports (checkNode example_services defaultOptions (create defaultOptions initial_module)
        div_i18n_title_hi (Some ''div''))) = [] \<and>
   i18n div_greeting_hi \<noteq> None \<and>
   filter (\<lambda>r. messageId r = i18nText)
     (reports (checkNode example_services defaultOptions (create defaultOptions initial_module)
        div_greeting_hi (Some ''div''))) = [] \<and>
   i18n div_title_hi = None \<and>
   enabled (checkText defaultOptions) \<and>
   children div_title_hi = Some [text_node] \<and>
   type text_node = ''Text'' \<and>
   filter (\<lambda>r. messageId r = i18nText)
     (reports (checkNode example_services defaultOptions (create defaultOptions initial_module)
        div_title_hi (Some ''div''))) =
     [\<lparr>messageId = i18nText, loc = first_column, data = [],
       autofix = Some (replaceTextRange (4, 4) '' i18n''), suggest = []\<rparr>] \<and>
   filter (\<lambda>r. messageId r = i18nId)
     (reports (checkNode example_services defaultOptions (create defaultOptions initial_module)
        div_title_hi (Some ''div''))) = []"
proof -
  have marker: "i18n div_i18n_title_hi = Some \<lparr>customId = Some ''''\<rparr>"
    "enabled (checkId defaultOptions)"
    "\<not> truthy_string (customId \<lparr>customId = Some ''''\<rparr>)"
    by (simp_all add: div_i18n_title_hi_def default_enabled truthy_string_def)
  have greeting: "i18n div_greeting_hi \<noteq> None"
    by (simp add: div_greeting_hi_def)
  have no_marker: "i18n div_title_hi = None"
    "enabled (checkText defaultOptions)"
    "children div_title_hi = Some [text_node]"
    "type text_node = ''Text''"
    by (simp_all add: div_title_hi_def default_enabled text_node_def)
  have locs: "nodeLoc example_services div_i18n_title_hi = first_column"
    "nodeLoc example_services div_title_hi = first_column"
    "insertIndex example_services div_title_hi (Some ''div'') = 4"
    by (simp_all add: div_title_hi_def div_i18n_title_hi_def)
  note first = element_check [where sv = example_services and opts = defaultOptions
      and m = "create defaultOptions initial_module" and nd = div_i18n_title_hi
      and nm = "Some ''div''"]
  from marker first
  have "filter (\<lambda>r. messageId r = i18nId)
     (reports (checkNode example_services defaultOptions (create defaultOptions initial_module)
        div_i18n_title_hi (Some ''div''))) =
     [\<lparr>messageId = i18nId, loc = nodeLoc example_services div_i18n_title_hi, data = [],
       autofix = None, suggest = []\<rparr>] \<and>
   filter (\<lambda>r. messageId r = i18nText)
     (reports (checkNode example_services defaultOptions (create defaultOptions initial_module)
        div_i18n_title_hi (Some ''div''))) = []"
    by metis
  then have 1: "filter (\<lambda>r. messageId r = i18nId)
     (reports (checkNode example_services defaultOptions (create defaultOptions initial_module)
        div_i18n_title_hi (Some ''div''))) =
     [\<lparr>messageId = i18nId, loc = first_column, data = [], autofix = None, suggest = []\<rparr>] \<and>
   filter (\<lambda>r. messageId r = i18nText)
     (reports (checkNode example_services defaultOptions (create defaultOptions initial_module)
        div_i18n_title_hi (Some ''div''))) = []"
    by (simp only: locs)
  note second = element_check [where sv = example_services and opts = defaultOptions
      and m = "create defaultOptions initial_module" and nd = div_title_hi
      and nm = "Some ''div''"]
  have child: "\<exists>cs. children div_title_hi = Some cs \<and>
      (\<exists>c \<in> set cs. type c = ''Text'' \<or> type c = ''BoundText'' \<or> type c = ''Icu'')"
    using no_marker by simp
  from no_marker(1,2) child second
  have "filter (\<lambda>r. messageId r = i18nText)
     (reports (checkNode example_services defaultOptions (create defaultOptions initial_module)
        div_title_hi (Some ''div''))) =
     [\<lparr>messageId = i18nText, loc = nodeLoc example_services div_title_hi, data = [],
       autofix = Some (replaceTextRange
         (insertIndex example_services div_title_hi (Some ''div''),
          insertIndex example_services div_title_hi (Some ''div'')) '' i18n''),
       suggest = []\<rparr>]"
    by metis
  then have 2: "filter (\<lambda>r. messageId r = i18nText)
     (reports (checkNode example_services defaultOptions (create defaultOptions initial_module)
        div_title_hi (Some ''div''))) =
     [\<lparr>messageId = i18nText, loc = first_column, data = [],
       autofix = Some (replaceTextRange (4, 4) '' i18n''), suggest = []\<rparr>]"
    by (simp only: locs)
  from no_marker(1) second
  have 3: "filter (\<lambda>r. messageId r = i18nId)
     (reports (checkNode example_services defaultOptions (create defaultOptions initial_module)
        div_title_hi (Some ''div''))) = []"
    by blast
  from greeting
    element_check [where sv = example_services and opts = defaultOptions
      and m = "create defaultOptions initial_module" and nd = div_greeting_hi
      and nm = "Some ''div''"]
  have 4: "filter (\<lambda>r. messageId r = i18nText)
     (reports (checkNode example_services defaultOptions (create defaultOptions initial_module)
        div_greeting_hi (Some ''div''))) = []"
    by blast
  from marker greeting no_marker 1 2 3 4 show ?thesis by simp
qed

text \<open>
  Claim C9. The claim is that after the fix of an \<^verbatim>\<open>i18nText\<close> report the node has
  no report \<^verbatim>\<open>i18nText\<close>. The code measures the insertion offset with the name the
  parser gives the node, not with the tag as it is written. For
  \<^verbatim>\<open><svg>Hello world</svg>\<close> the name is \<^verbatim>\<open>:svg:svg\<close>, of length 8: the one report is
  \<^verbatim>\<open>i18nText\<close> with a fix at offset 9, the fix gives the text
  \<^verbatim>\<open><svg>Hell i18no world</svg>\<close>, the opening tag of the element has no attribute
  \<^verbatim>\<open>i18n\<close> in it, so the node has no marker, and the run of a second instance reports
  \<^verbatim>\<open>i18nText\<close> again.
\<close>

theorem text_fix_lands_in_text:
  "reports (Element example_services defaultOptions (create defaultOptions initial_module)
     svg_hello) =
     [\<lparr>messageId = i18nText, loc = first_column, data = [],
       autofix = Some (replaceTextRange (9, 9) '' i18n''), suggest = []\<rparr>] \<and>
   applyEdit (replaceTextRange (9, 9) '' i18n'') svg_hello_source =
     ''<svg>Hell i18no world</svg>'' \<and>
   i18n (applyI18nTextFix example_services svg_hello_source
     (replaceTextRange (9, 9) '' i18n'') svg_hello) = None \<and>
   map messageId (reports (Element example_services defaultOptions
     (creates [defaultOptions, defaultOptions] initial_module)
     (applyI18nTextFix example_services svg_hello_source
       (replaceTextRange (9, 9) '' i18n'') svg_hello))) = [i18nText]"
proof -
  have spliced: "applyEdit (replaceTextRange (9, 9) '' i18n'') svg_hello_source =
      ''<svg>Hell i18no world</svg>''"
    by (simp add: applyEdit_def svg_hello_source_def)
  have again: "applyI18nTextFix example_services svg_hello_source
      (replaceTextRange (9, 9) '' i18n'') svg_hello = svg_hello"
    by (simp add: applyI18nTextFix_def spliced svg_hello_def openingTag_def isAsciiLetter_def
        tagSpace_def markerOf_def nodeLoc_def example_services_def)
  have run: "reports (Element example_services defaultOptions m svg_hello) =
     [\<lparr>messageId = i18nText, loc = first_column, data = [],
       autofix = Some (replaceTextRange (9, 9) '' i18n''), suggest = []\<rparr>]" for m
    by (simp add: Element_def checkNode_reports svg_hello_def checkElement_def default_enabled
        TEXT_TYPE_NAMES_def ATTRIB_I18N_def)
  have "i18n svg_hello = None" by (simp add: svg_hello_def)
  with spliced again run show ?thesis by simp
qed

text \<open>
  Where the name has the length of the tag as it is written, the fix lands behind the tag
  name and the node then has a marker: the source text is \<open>pre\<close>, \<^verbatim>\<open><\<close>, the tag and
  the rest of the text, the node starts at the \<^verbatim>\<open><\<close>, the tag starts with a letter and
  ends before white space, \<^verbatim>\<open>>\<close> or \<^verbatim>\<open>/\<close>, and what follows it is not the \<^verbatim>\<open>=\<close> of
  an attribute value. Then the second run has no report \<^verbatim>\<open>i18nText\<close>.
\<close>

lemma fix_after_written_tag:
  assumes src: "src = pre @ CHR ''<'' # tag @ rest"
    and tag: "tag \<noteq> []" "isAsciiLetter (hd tag)"
      "\<forall>c \<in> set tag. \<not> tagSpace c \<and> c \<noteq> CHR ''>'' \<and> c \<noteq> CHR ''/''"
    and rest: "rest = c # cs" "tagSpace c \<or> c = CHR ''>'' \<or> c = CHR ''/''"
      "dropWhile tagSpace rest = d # ds" "d \<noteq> CHR ''=''"
    and off: "getIndexFromLoc sv (start (nodeLoc sv nd)) = length pre"
    and nm: "nm = Some written" "length written = length tag"
  shows "i18n (applyI18nTextFix sv src
           (replaceTextRange (insertIndex sv nd nm, insertIndex sv nd nm) '' i18n'') nd) =
         Some \<lparr>customId = Some ''''\<rparr>"
proof -
  from nm tag(1) have "written \<noteq> []" by auto
  with nm off have ix: "insertIndex sv nd nm = length (pre @ CHR ''<'' # tag)"
    by (simp add: insertIndex_def truthy_string_def)
  have spliced:
    "applyEdit (replaceTextRange (insertIndex sv nd nm, insertIndex sv nd nm) '' i18n'') src =
      pre @ CHR ''<'' # tag @ '' i18n'' @ rest"
    unfolding ix applyEdit_def src by simp
  from tag(1) obtain t ts where t: "tag = t # ts" by (cases tag) auto
  with tag(2) have letter: "isAsciiLetter t" by simp
  have "openingTag (pre @ CHR ''<'' # tag @ '' i18n'' @ rest) (length pre) =
      scanTag InTagName (tag @ '' i18n'' @ rest)"
    using letter by (simp add: openingTag_def t)
  also have "\<dots> = scanTag InTagName ('' i18n'' @ rest)"
    by (rule scanTag_tag_name [OF tag(3)])
  finally obtain ys where
    "openingTag (pre @ CHR ''<'' # tag @ '' i18n'' @ rest) (length pre) = (''i18n'', []) # ys"
    using scanTag_inserted [OF rest] by auto
  then show ?thesis
    by (simp add: i18n_applyI18nTextFix spliced off markerOf_first)
qed

lemma marked_node_has_no_text_report:
  assumes "i18n nd = Some meta"
  shows "i18nText \<notin> messageId ` set (reports (checkNode sv opts m nd nm))"
proof
  assume "i18nText \<in> messageId ` set (reports (checkNode sv opts m nd nm))"
  then obtain r where r: "r \<in> set (reports (checkNode sv opts m nd nm))"
    and msg: "messageId r = i18nText"
    by auto
  from r consider a where "r \<in> set (attribCallback opts (allIgnoredAttribs m)
        (nodeLoc sv nd) (insertIndex sv nd nm) a)"
    | "r \<in> set (checkElement opts (nodeLoc sv nd) (insertIndex sv nd nm) nd)"
    by (auto simp: checkNode_reports)
  then show False
  proof cases
    case 1
    from attribCallback_messageIds [OF this] msg show ?thesis by simp
  next
    case 2
    then have "messageId r = i18nId"
      by (cases "enabled (checkId opts) \<and> \<not> truthy_string (customId meta)")
        (simp_all add: checkElement_marker [OF assms])
    with msg show ?thesis by simp
  qed
qed

text \<open>\<^verbatim>\<open><div>Hi</div>\<close>: the fix gives \<^verbatim>\<open><div i18n>Hi</div>\<close> and no second report.\<close>

lemma text_fix_of_div:
  "applyEdit (replaceTextRange (4, 4) '' i18n'') div_hi_source = ''<div i18n>Hi</div>'' \<and>
   i18nText \<notin> messageId ` set (reports (Element example_services defaultOptions
     (create defaultOptions initial_module)
     (applyI18nTextFix example_services div_hi_source
       (replaceTextRange (insertIndex example_services div_hi (name div_hi),
          insertIndex example_services div_hi (name div_hi)) '' i18n'') div_hi)))"
proof -
  have "i18n (applyI18nTextFix example_services div_hi_source
       (replaceTextRange (insertIndex example_services div_hi (Some ''div''),
          insertIndex example_services div_hi (Some ''div'')) '' i18n'') div_hi) =
       Some \<lparr>customId = Some ''''\<rparr>"
    by (rule fix_after_written_tag [where pre = "[]" and tag = "''div''"
          and rest = "''>Hi</div>''" and c = "CHR ''>''" and cs = "''Hi</div>''"
          and d = "CHR ''>''" and ds = "''Hi</div>''" and written = "''div''"])
      (simp_all add: div_hi_source_def isAsciiLetter_def tagSpace_def div_hi_def
        nodeLoc_def example_services_def)
  then have "i18nText \<notin> messageId ` set (reports (checkNode example_services defaultOptions
     (create defaultOptions initial_module)
     (applyI18nTextFix example_services div_hi_source
       (replaceTextRange (insertIndex example_services div_hi (Some ''div''),
          insertIndex example_services div_hi (Some ''div'')) '' i18n'') div_hi) nm))" for nm
    by (rule marked_node_has_no_text_report)
  moreover have "name div_hi = Some ''div''" by (simp add: div_hi_def)
  moreover have "applyEdit (replaceTextRange (4, 4) '' i18n'') div_hi_source =
      ''<div i18n>Hi</div>''"
    by (simp add: applyEdit_def div_hi_source_def)
  ultimately show ?thesis by (simp add: Element_def)
qed

subsection \<open>The insertion offset and nodes without a name\<close>

text \<open>
  Claim C5. The insertion offset is the start offset of the node plus one when the name
  is absent or empty, and the start offset plus one plus the length of the name
  otherwise. A node without a name is checked like a node with the empty name: its
  reports are those of all its attributes followed by that of the element check, with
  the insertion offset right after the opening character. The call also writes the node
  to the console; this is in addition to the check, not instead of it.
\<close>

theorem insertion_offset:
  fixes sv :: "'s services"
  defines "startOffset \<equiv>
    (\<lambda>nd. getIndexFromLoc sv (start (convertNodeSourceSpanToLoc sv (sourceSpan nd))))"
  shows "insertIndex sv nd None = startOffset nd + 1 \<and>
         insertIndex sv nd (Some '''') = startOffset nd + 1 \<and>
         insertIndex sv nd (Some n) = startOffset nd + 1 + length n \<and>
         reports (checkNode sv opts m nd None) = reports (checkNode sv opts m nd (Some '''')) \<and>
         reports (checkNode sv opts m nd None) =
           concat (map (attribCallback opts (allIgnoredAttribs m) (nodeLoc sv nd)
             (startOffset nd + 1)) (attributes nd)) @
           checkElement opts (nodeLoc sv nd) (startOffset nd + 1) nd \<and>
         console (checkNode sv opts m nd None) = [nd]"
  by (simp add: insertIndex_def startOffset_def nodeLoc_def checkNode_def consoleLog_def
      truthy_string_def Let_def)

text \<open>A template node without a tag name, and the name \<^verbatim>\<open>div\<close>.\<close>

theorem insertion_offset_witness:
  "insertIndex example_services anonymous_template None = 1 \<and>
   insertIndex example_services anonymous_template (Some ''div'') = 4 \<and>
   reports (Template example_services defaultOptions (create defaultOptions initial_module)
     anonymous_template) =
     [\<lparr>messageId = i18nText, loc = first_column, data = [],
       autofix = Some (replaceTextRange (1, 1) '' i18n''), suggest = []\<rparr>]"
proof -
  have elem: "checkElement defaultOptions first_column 1 anonymous_template =
     [\<lparr>messageId = i18nText, loc = first_column, data = [],
       autofix = Some (replaceTextRange (1, 1) '' i18n''), suggest = []\<rparr>]"
    by (simp add: checkElement_no_marker anonymous_template_def default_enabled text_node_def)
  have node: "nodeLoc example_services anonymous_template = first_column"
    "sourceSpan anonymous_template = 0" "attributes anonymous_template = []"
    "tagName anonymous_template = None"
    by (simp_all add: anonymous_template_def)
  from insertion_offset [where sv = example_services and nd = anonymous_template
      and n = "''div''" and opts = defaultOptions
      and m = "create defaultOptions initial_module"]
  show ?thesis
    by (auto simp: Template_def node elem [unfolded One_nat_def])
qed

subsection \<open>The ignore list\<close>

text \<open>
  Claim C6. The claim is that the built-in list is a constant and that every instance
  sees the built-in names and its own. The code binds \<^verbatim>\<open>allIgnoredAttribs\<close> to the
  array \<^verbatim>\<open>DEFAULT_IGNORE_ATTRIBUTES\<close> itself and pushes onto it. After an instance that
  ignores \<^verbatim>\<open>title\<close>, the array holds \<^verbatim>\<open>title\<close>; a second instance that ignores
  \<^verbatim>\<open>alt\<close> reads the built-in names, \<^verbatim>\<open>title\<close> and \<^verbatim>\<open>alt\<close>, and makes no report
  for \<^verbatim>\<open>title="Hello"\<close>, which it reports when it is the first instance.
\<close>

theorem create_pushes_onto_defaults:
  "DEFAULT_IGNORE_ATTRIBUTES (create ignore_title initial_module) =
     DEFAULT_IGNORE_ATTRIBUTES initial_module @ [''title''] \<and>
   allIgnoredAttribs (creates [ignore_title, ignore_alt] initial_module) =
     DEFAULT_IGNORE_ATTRIBUTES initial_module @ [''title'', ''alt''] \<and>
   ''title'' \<notin> set (DEFAULT_IGNORE_ATTRIBUTES initial_module) \<union> set [''alt''] \<and>
   map messageId (reports (Element example_services ignore_alt
     (creates [ignore_title, ignore_alt] initial_module) div_title_hi)) = [i18nText] \<and>
   map messageId (reports (Element example_services ignore_alt
     (creates [ignore_alt] initial_module) div_title_hi)) = [i18nAttrib, i18nText]"
  by (simp add: creates_def create_def allIgnoredAttribs_def ignore_title_def ignore_alt_def
      initial_module_def Element_def checkNode_reports div_title_hi_def attribCallback_def
      title_attribute_def default_enabled isSizeOrNumber_words startsWith_def
      checkElement_def text_node_def TEXT_TYPE_NAMES_def)

text \<open>
  Claim C8, as the code has it. The claim says that \<^verbatim>\<open>ignoreAttributes\<close> is empty by
  default. The default is the list of the empty string, so the first instance under the
  default options reads the built-in names followed by the empty string: these and no
  other.
\<close>

theorem default_ignore_list:
  "ignoreAttributes defaultOptions = Some [''''] \<and>
   allIgnoredAttribs (create defaultOptions initial_module) =
     DEFAULT_IGNORE_ATTRIBUTES initial_module @ [''''] \<and>
   set (allIgnoredAttribs (create defaultOptions initial_module)) =
     insert '''' (set (DEFAULT_IGNORE_ATTRIBUTES initial_module))"
  by (simp add: default_ignored) (simp add: defaultOptions_def)

text \<open>The empty string is ignored under the default options and is no built-in name.\<close>

theorem default_ignoreAttributes_counterexample:
  "ignoreAttributes defaultOptions \<noteq> Some [] \<and>
   '''' \<in> set (allIgnoredAttribs (create defaultOptions initial_module)) \<and>
   '''' \<notin> set (DEFAULT_IGNORE_ATTRIBUTES initial_module) \<and>
   set (allIgnoredAttribs (create defaultOptions initial_module)) \<noteq>
     set (DEFAULT_IGNORE_ATTRIBUTES initial_module)"
proof -
  have 1: "ignoreAttributes defaultOptions \<noteq> Some []"
    by (simp add: defaultOptions_def)
  have 2: "'''' \<in> set (allIgnoredAttribs (create defaultOptions initial_module))"
    by (simp add: default_ignored)
  have 3: "'''' \<notin> set (DEFAULT_IGNORE_ATTRIBUTES initial_module)"
    by (simp add: initial_module_def)
  from 1 2 3 show ?thesis by blast
qed

end
